theory Spec2Isabelle
  imports Main "HOL-Library.Char_ord" "HOL-Library.List_Lexorder" "HOL-Library.Product_Lexorder"
    "HOL-Library.Finite_Map"
begin

section \<open>The row store\<close>

text \<open>
  The tables of \<^verbatim>\<open>setup_all_databases.py\<close> that the analytic queries of
  \<^verbatim>\<open>analysis.py\<close> read. A column declared \<^verbatim>\<open>NOT NULL\<close> (or an
  \<^verbatim>\<open>INTEGER PRIMARY KEY\<close>) holds a value; every other column is nullable and holds an
  option, \<open>None\<close> standing for SQL's NULL. Text is a list of bytes.
\<close>

record employee =
  employee_id :: int
  first_name :: string
  last_name :: string
  Department :: string
  email :: string
  role_ID :: int

record file_data =
  file_id :: int
  file_name :: string

record file_access =
  access_id :: int
  fa_employee_id :: int
  fa_access_type_id :: int
  fa_timestamp :: string
  fa_file_id :: int

record endpoint =
  device_id :: int
  es_employee_id :: "int option"
  os_name :: "string option"
  os_version :: "string option"
  last_patch_date :: "string option"
  antivirus_status :: "string option"

record database =
  Employee_Data :: "employee list"
  File_Data :: "file_data list"
  File_Access :: "file_access list"
  Endpoint_Security :: "endpoint list"

subsection \<open>SQL's three-valued logic\<close>

text \<open>
  A condition is true, false or NULL (\<open>None\<close>); \<^verbatim>\<open>WHERE\<close> keeps the rows whose
  condition is true. Text is compared bytewise (the BINARY collation) and a comparison with
  NULL is NULL.
\<close>

type_synonym sql_bool = "bool option"

definition sql_or :: "sql_bool \<Rightarrow> sql_bool \<Rightarrow> sql_bool" where
  "sql_or a b =
     (if a = Some True \<or> b = Some True then Some True
      else if a = None \<or> b = None then None
      else Some False)"

definition sql_lt :: "string option \<Rightarrow> string option \<Rightarrow> sql_bool" where
  "sql_lt a b = (case (a, b) of (Some x, Some y) \<Rightarrow> Some (x < y) | _ \<Rightarrow> None)"

definition sql_ge :: "string option \<Rightarrow> string option \<Rightarrow> sql_bool" where
  "sql_ge a b = (case (a, b) of (Some x, Some y) \<Rightarrow> Some (y \<le> x) | _ \<Rightarrow> None)"

definition sql_ne :: "string option \<Rightarrow> string option \<Rightarrow> sql_bool" where
  "sql_ne a b = (case (a, b) of (Some x, Some y) \<Rightarrow> Some (x \<noteq> y) | _ \<Rightarrow> None)"

definition sql_in :: "string option \<Rightarrow> string list \<Rightarrow> sql_bool" where
  \<comment> \<open>\<^verbatim>\<open>x IN (l1, ..., ln)\<close> for literals \<open>li\<close>, none of them NULL\<close>
  "sql_in a ls = (case a of Some x \<Rightarrow> Some (x \<in> set ls) | None \<Rightarrow> None)"

definition sql_where :: "sql_bool \<Rightarrow> bool" where
  "sql_where c = (c = Some True)"

subsection \<open>\<^verbatim>\<open>strftime('%H', timestamp)\<close>\<close>

text \<open>
  The seeding script writes every timestamp as \<^verbatim>\<open>YYYY-MM-DD HH:MM:SS\<close>. SQLite's
  date parser reads a text of this form digit by digit, with the ranges it accepts (month
  01-12, day 01-31, hour 00-24, minute and second 00-59), and \<^verbatim>\<open>%H\<close> prints the hour
  it has read with two digits. The parser reads other forms as well (a date alone, a time
  without seconds, fractions of a second, a zone, a Julian day number), and it is not part of
  the repository: what \<^verbatim>\<open>strftime('%H', t)\<close> is for a text \<open>t\<close> of another form is an
  argument of the model, \<open>other t\<close>, with \<open>None\<close> for NULL.
\<close>

record datetime =
  dt_year :: nat
  dt_month :: nat
  dt_day :: nat
  dt_hour :: nat
  dt_minute :: nat
  dt_second :: nat

definition digits :: string where
  "digits = ''0123456789''"

definition digit_val :: "char \<Rightarrow> nat option" where
  "digit_val c = map_of (zip digits [0, 1, 2, 3, 4, 5, 6, 7, 8, 9]) c"

definition two_digits :: "char \<Rightarrow> char \<Rightarrow> nat option" where
  "two_digits a b =
     (case (digit_val a, digit_val b) of (Some x, Some y) \<Rightarrow> Some (10 * x + y) | _ \<Rightarrow> None)"

definition four_digits :: "char \<Rightarrow> char \<Rightarrow> char \<Rightarrow> char \<Rightarrow> nat option" where
  "four_digits a b c d =
     (case (two_digits a b, two_digits c d) of
        (Some x, Some y) \<Rightarrow> Some (100 * x + y) | _ \<Rightarrow> None)"

definition parse_datetime :: "string \<Rightarrow> datetime option" where
  \<comment> \<open>a text of the form \<^verbatim>\<open>YYYY-MM-DD HH:MM:SS\<close>, read by position\<close>
  "parse_datetime ts =
     (if length ts = 19 \<and> ts ! 4 = CHR ''-'' \<and> ts ! 7 = CHR ''-'' \<and> ts ! 10 = CHR '' '' \<and>
         ts ! 13 = CHR '':'' \<and> ts ! 16 = CHR '':''
      then
        (case (four_digits (ts ! 0) (ts ! 1) (ts ! 2) (ts ! 3), two_digits (ts ! 5) (ts ! 6),
               two_digits (ts ! 8) (ts ! 9), two_digits (ts ! 11) (ts ! 12),
               two_digits (ts ! 14) (ts ! 15), two_digits (ts ! 17) (ts ! 18)) of
           (Some y, Some m, Some d, Some h, Some n, Some c) \<Rightarrow>
             if 1 \<le> m \<and> m \<le> 12 \<and> 1 \<le> d \<and> d \<le> 31 \<and> h \<le> 24 \<and> n \<le> 59 \<and> c \<le> 59
             then Some \<lparr>dt_year = y, dt_month = m, dt_day = d, dt_hour = h,
                        dt_minute = n, dt_second = c\<rparr>
             else None
         | _ \<Rightarrow> None)
      else None)"

definition zero_padded2 :: "nat \<Rightarrow> string" where
  \<comment> \<open>the format \<^verbatim>\<open>%02d\<close> of a number below 100\<close>
  "zero_padded2 n = [digits ! (n div 10 mod 10), digits ! (n mod 10)]"

definition strftime_H :: "(string \<Rightarrow> string option) \<Rightarrow> string \<Rightarrow> string option" where
  "strftime_H other ts =
     (case parse_datetime ts of Some d \<Rightarrow> Some (zero_padded2 (dt_hour d)) | None \<Rightarrow> other ts)"

text \<open>
  What the specification calls the hour of a timestamp. For a text of the form
  \<^verbatim>\<open>YYYY-MM-DD HH:MM:SS\<close> it is the number that the two characters \<^verbatim>\<open>HH\<close>
  write; for a text of another form it is the number that the two digits of
  \<^verbatim>\<open>strftime('%H', t)\<close> write, and there is none where that is NULL.
\<close>

definition is_digit :: "char \<Rightarrow> bool" where
  "is_digit c = (c \<in> set ''0123456789'')"

definition digit_value :: "char \<Rightarrow> nat" where
  "digit_value c = of_char c - 48"

definition number2 :: "char \<Rightarrow> char \<Rightarrow> nat" where
  "number2 a b = 10 * digit_value a + digit_value b"

definition written_hour :: "string \<Rightarrow> nat" where
  "written_hour ts = number2 (ts ! 11) (ts ! 12)"

definition plain_datetime :: "string \<Rightarrow> bool" where
  "plain_datetime ts =
     (length ts = 19 \<and>
      list_all (\<lambda>i. is_digit (ts ! i)) [0, 1, 2, 3, 5, 6, 8, 9, 11, 12, 14, 15, 17, 18] \<and>
      ts ! 4 = CHR ''-'' \<and> ts ! 7 = CHR ''-'' \<and> ts ! 10 = CHR '' '' \<and> ts ! 13 = CHR '':'' \<and>
      ts ! 16 = CHR '':'' \<and>
      1 \<le> number2 (ts ! 5) (ts ! 6) \<and> number2 (ts ! 5) (ts ! 6) \<le> 12 \<and>
      1 \<le> number2 (ts ! 8) (ts ! 9) \<and> number2 (ts ! 8) (ts ! 9) \<le> 31 \<and>
      written_hour ts \<le> 24 \<and> number2 (ts ! 14) (ts ! 15) \<le> 59 \<and>
      number2 (ts ! 17) (ts ! 18) \<le> 59)"

definition two_digit_text :: "string \<Rightarrow> bool" where
  "two_digit_text t = (length t = 2 \<and> is_digit (t ! 0) \<and> is_digit (t ! 1))"

definition hours_as_text :: "(string \<Rightarrow> string option) \<Rightarrow> bool" where
  \<comment> \<open>\<^verbatim>\<open>strftime('%H', t)\<close> is NULL or two digits\<close>
  "hours_as_text other = (\<forall>ts t. other ts = Some t \<longrightarrow> two_digit_text t)"

definition timestamp_hour :: "(string \<Rightarrow> string option) \<Rightarrow> string \<Rightarrow> nat option" where
  "timestamp_hour other ts =
     (if plain_datetime ts then Some (written_hour ts)
      else map_option (\<lambda>t. number2 (t ! 0) (t ! 1)) (other ts))"

subsection \<open>The \<^verbatim>\<open>LIKE\<close> operator\<close>

text \<open>
  In a pattern \<^verbatim>\<open>%\<close> stands for any run of characters and \<^verbatim>\<open>_\<close> for any one
  character; every other character stands for itself, and SQLite compares the letters A-Z
  without regard to case unless \<^verbatim>\<open>PRAGMA case_sensitive_like\<close> is set, which the
  scripts never do.
\<close>

definition lower :: "char \<Rightarrow> char" where
  "lower c =
     (case map_of (zip ''ABCDEFGHIJKLMNOPQRSTUVWXYZ'' ''abcdefghijklmnopqrstuvwxyz'') c of
        Some d \<Rightarrow> d
      | None \<Rightarrow> c)"

fun like :: "string \<Rightarrow> string \<Rightarrow> bool" where
  "like [] s = (s = [])"
| "like (p # ps) [] = (if p = CHR ''%'' then like ps [] else False)"
| "like (p # ps) (c # cs) =
     (if p = CHR ''%'' then (if like ps (c # cs) then True else like (p # ps) cs)
      else if p = CHR ''_'' then like ps cs
      else if lower p = lower c then like ps cs
      else False)"

subsection \<open>The three queries on the row store whose rows are specified\<close>

text \<open>
  An inner join pairs every row with the rows of the joined table that have the same key. A
  query without \<^verbatim>\<open>ORDER BY\<close> promises no order of its rows; the model lists them in
  the order of a nested loop, and the theorems speak of the set of rows only.
\<close>

definition full_name :: "employee \<Rightarrow> string" where
  \<comment> \<open>\<^verbatim>\<open>e.first_name || ' ' || e.last_name\<close>\<close>
  "full_name e = first_name e @ '' '' @ last_name e"

definition insider_where :: "(string \<Rightarrow> string option) \<Rightarrow> string \<Rightarrow> sql_bool" where
  \<comment> \<open>\<^verbatim>\<open>strftime('%H', f.timestamp) < '08' OR strftime('%H', f.timestamp) >= '20'\<close>\<close>
  "insider_where other ts =
     sql_or (sql_lt (strftime_H other ts) (Some ''08''))
       (sql_ge (strftime_H other ts) (Some ''20''))"

definition query_insider ::
  "(string \<Rightarrow> string option) \<Rightarrow> database \<Rightarrow> (string \<times> string \<times> string) list" where
  "query_insider other db =
     [(full_name e, Department e, fa_timestamp f).
        f \<leftarrow> File_Access db, e \<leftarrow> Employee_Data db, fa_employee_id f = employee_id e,
        sql_where (insider_where other (fa_timestamp f))]"

definition rbac_where :: "string \<Rightarrow> string \<Rightarrow> bool" where
  \<comment> \<open>\<^verbatim>\<open>(e.Department NOT IN ('Finance', 'HR')) AND
      (f.file_name LIKE '%Budget%' OR f.file_name LIKE '%Payroll%')\<close>, on columns that are
      never NULL\<close>
  "rbac_where dept fname =
     (dept \<notin> set [''Finance'', ''HR''] \<and>
      (like ''%Budget%'' fname \<or> like ''%Payroll%'' fname))"

definition query_rbac :: "database \<Rightarrow> (string \<times> string \<times> string) list" where
  "query_rbac db =
     [(full_name e, Department e, file_name f).
        fa \<leftarrow> File_Access db, e \<leftarrow> Employee_Data db, fa_employee_id fa = employee_id e,
        f \<leftarrow> File_Data db, fa_file_id fa = file_id f,
        rbac_where (Department e) (file_name f)]"

definition vuln_where :: "string option \<Rightarrow> string option \<Rightarrow> sql_bool" where
  \<comment> \<open>\<^verbatim>\<open>s.antivirus_status != 'Active' OR s.os_version IN ('XP', '7')\<close>\<close>
  "vuln_where status version =
     sql_or (sql_ne status (Some ''Active'')) (sql_in version [''XP'', ''7''])"

definition query_vuln ::
  "database \<Rightarrow> (string \<times> string option \<times> string option \<times> string option) list" where
  "query_vuln db =
     [(full_name e, os_name s, os_version s, antivirus_status s).
        s \<leftarrow> Endpoint_Security db, e \<leftarrow> Employee_Data db, es_employee_id s = Some (employee_id e),
        sql_where (vuln_where (antivirus_status s) (os_version s))]"

text \<open>What the specification calls containing a word as a substring.\<close>

fun starts_with :: "string \<Rightarrow> string \<Rightarrow> bool" where
  "starts_with [] s = True"
| "starts_with (a # w) [] = False"
| "starts_with (a # w) (c # s) = (if a = c then starts_with w s else False)"

fun contains :: "string \<Rightarrow> string \<Rightarrow> bool" where
  \<comment> \<open>\<open>contains w s\<close>: the word occurs in the text, letter case respected\<close>
  "contains w [] = (w = [])"
| "contains w (c # s) = (if starts_with w (c # s) then True else contains w s)"

definition contains_nocase :: "string \<Rightarrow> string \<Rightarrow> bool" where
  \<comment> \<open>the word occurs in the text when the case of the letters A-Z is ignored\<close>
  "contains_nocase w s = contains (map lower w) (map lower s)"

definition literal :: "string \<Rightarrow> bool" where
  \<comment> \<open>a pattern fragment without wildcards\<close>
  "literal w = (CHR ''%'' \<notin> set w \<and> CHR ''_'' \<notin> set w)"

section \<open>The document store\<close>

text \<open>
  A document is a Python dictionary once \<^verbatim>\<open>pymongo\<close> has decoded it. The values that
  matter here are \<^verbatim>\<open>None\<close>, the float \<^verbatim>\<open>NaN\<close> that pandas puts where a
  document has no value for a column, strings, integers and nested dictionaries.
\<close>

datatype pyval =
  PyNone
| PyNaN
| PyStr string
| PyInt int
| PyDict "(string, pyval) fmap"

text \<open>
  An access-log document. The fields \<^verbatim>\<open>_ID\<close>, \<^verbatim>\<open>TIMESTAMP\<close> and
  \<^verbatim>\<open>STATUS\<close> are taken as the seeding script writes them: a string, a time (in
  microseconds since the epoch) and a string. \<^verbatim>\<open>LOCATION\<close> is any value, or absent
  (\<open>None\<close>).
\<close>

record access_log =
  ID :: string
  TIMESTAMP :: int
  LOCATION :: "pyval option"
  STATUS :: string

text \<open>
  A phishing document. The anomaly score is the exact value of the stored double: doubles
  compare as the rationals they denote.
\<close>

record phishing =
  PHISHING_ID :: string
  ph_ID :: string
  ANOMALY_SCORE :: rat
  LINK_CLICKED :: bool
  EMAIL_SUBJECT :: string
  EMAIL_SENDER :: string

subsection \<open>Use case 3: the aggregation pipeline\<close>

text \<open>
  \<^verbatim>\<open>$group\<close> promises no order of its groups and \<^verbatim>\<open>$sort\<close> none among
  equal keys; the model lists the groups in the order of first occurrence and sorts stably.
\<close>

definition match_status :: "string \<Rightarrow> access_log list \<Rightarrow> access_log list" where
  \<comment> \<open>\<^verbatim>\<open>{"$match": {"STATUS": v}}\<close>\<close>
  "match_status v docs = filter (\<lambda>d. STATUS d = v) docs"

definition group_sum1 :: "access_log list \<Rightarrow> (string \<times> nat) list" where
  \<comment> \<open>\<^verbatim>\<open>{"$group": {"_id": "$_ID", "Failed_Count": {"$sum": 1}}}\<close>\<close>
  "group_sum1 docs =
     map (\<lambda>k. (k, length (filter (\<lambda>d. ID d = k) docs))) (remdups (map ID docs))"

definition match_gte :: "nat \<Rightarrow> (string \<times> nat) list \<Rightarrow> (string \<times> nat) list" where
  \<comment> \<open>\<^verbatim>\<open>{"$match": {"Failed_Count": {"$gte": n}}}\<close>\<close>
  "match_gte n groups = filter (\<lambda>g. n \<le> snd g) groups"

definition sort_descending :: "(string \<times> nat) list \<Rightarrow> (string \<times> nat) list" where
  \<comment> \<open>\<^verbatim>\<open>{"$sort": {"Failed_Count": -1}}\<close>\<close>
  "sort_descending groups = sort_key (\<lambda>g. - int (snd g)) groups"

definition pipeline :: "access_log list \<Rightarrow> (string \<times> nat) list" where
  "pipeline docs = sort_descending (match_gte 2 (group_sum1 (match_status ''Failed'' docs)))"

definition failed_count :: "access_log list \<Rightarrow> string \<Rightarrow> nat" where
  \<comment> \<open>the number of documents of a subject whose status is Failed\<close>
  "failed_count docs s = length (filter (\<lambda>d. ID d = s \<and> STATUS d = ''Failed'') docs)"

subsection \<open>Use case 4: the phishing filter\<close>

definition double_0_8 :: rat where
  \<comment> \<open>the double nearest to 0.8, which the literal \<^verbatim>\<open>0.8\<close> denotes\<close>
  "double_0_8 = 3602879701896397 / 4503599627370496"

definition double_0_81 :: rat where
  \<comment> \<open>the double nearest to 0.81\<close>
  "double_0_81 = 1823957849085051 / 2251799813685248"

definition query_phish :: "phishing \<Rightarrow> bool" where
  \<comment> \<open>\<^verbatim>\<open>{"ANOMALY_SCORE": {"$gt": 0.8}, "LINK_CLICKED": True}\<close>\<close>
  "query_phish d = (double_0_8 < ANOMALY_SCORE d \<and> LINK_CLICKED d = True)"

definition count_documents :: "('a \<Rightarrow> bool) \<Rightarrow> 'a list \<Rightarrow> nat" where
  "count_documents q docs = length (filter q docs)"

definition victim_count :: "phishing list \<Rightarrow> nat" where
  "victim_count docs = count_documents query_phish docs"

subsection \<open>Use case 6: impossible travel, in pandas\<close>

text \<open>
  \<^verbatim>\<open>pd.DataFrame(logs)\<close> has one column for every key that some document has, and
  \<^verbatim>\<open>NaN\<close> where a document lacks the key. Reading a column that no document has
  raises \<^verbatim>\<open>KeyError\<close>.
\<close>

datatype py_error = KeyError string

record frame_row =
  col_ID :: string
  col_TIMESTAMP :: int
  col_LOCATION :: pyval

record country_row = frame_row +
  Country :: pyval

record shifted_row = country_row +
  Prev_Country :: pyval

definition has_column_LOCATION :: "access_log list \<Rightarrow> bool" where
  "has_column_LOCATION logs = list_ex (\<lambda>d. LOCATION d \<noteq> None) logs"

definition cell :: "pyval option \<Rightarrow> pyval" where
  "cell v = (case v of Some x \<Rightarrow> x | None \<Rightarrow> PyNaN)"

definition DataFrame :: "access_log list \<Rightarrow> frame_row list" where
  "DataFrame logs =
     map (\<lambda>d. \<lparr>col_ID = ID d, col_TIMESTAMP = TIMESTAMP d, col_LOCATION = cell (LOCATION d)\<rparr>) logs"

definition get_Country :: "pyval \<Rightarrow> pyval" where
  \<comment> \<open>\<^verbatim>\<open>lambda x: x.get('Country') if isinstance(x, dict) else None\<close>\<close>
  "get_Country x =
     (case x of
        PyDict m \<Rightarrow> (case fmlookup m ''Country'' of Some v \<Rightarrow> v | None \<Rightarrow> PyNone)
      | _ \<Rightarrow> PyNone)"

definition apply_Country :: "frame_row list \<Rightarrow> country_row list" where
  \<comment> \<open>\<^verbatim>\<open>df_logs['Country'] = df_logs['LOCATION'].apply(...)\<close>\<close>
  "apply_Country df =
     map (\<lambda>r. \<lparr>col_ID = col_ID r, col_TIMESTAMP = col_TIMESTAMP r,
                col_LOCATION = col_LOCATION r, Country = get_Country (col_LOCATION r)\<rparr>) df"

definition sort_values :: "country_row list \<Rightarrow> country_row list" where
  \<comment> \<open>\<^verbatim>\<open>df_logs.sort_values(by=['_ID', 'TIMESTAMP'])\<close>: a stable sort on the pair\<close>
  "sort_values df = sort_key (\<lambda>r. (col_ID r, col_TIMESTAMP r)) df"

fun shift_in_groups :: "(string \<Rightarrow> pyval) \<Rightarrow> country_row list \<Rightarrow> shifted_row list" where
  \<comment> \<open>\<open>seen k\<close> is the country of the last row of group \<open>k\<close> so far\<close>
  "shift_in_groups seen [] = []"
| "shift_in_groups seen (r # rs) =
     \<lparr>col_ID = col_ID r, col_TIMESTAMP = col_TIMESTAMP r, col_LOCATION = col_LOCATION r,
      Country = Country r, Prev_Country = seen (col_ID r)\<rparr>
     # shift_in_groups (seen(col_ID r := Country r)) rs"

definition groupby_shift :: "country_row list \<Rightarrow> shifted_row list" where
  \<comment> \<open>\<^verbatim>\<open>df_logs['Prev_Country'] = df_logs.groupby('_ID')['Country'].shift(1)\<close>: the
      first row of a group gets \<^verbatim>\<open>NaN\<close>\<close>
  "groupby_shift df = shift_in_groups (\<lambda>k. PyNaN) df"

definition isnull :: "pyval \<Rightarrow> bool" where
  "isnull v = (v = PyNone \<or> v = PyNaN)"

definition notnull :: "pyval \<Rightarrow> bool" where
  "notnull v = (\<not> isnull v)"

definition ne :: "pyval \<Rightarrow> pyval \<Rightarrow> bool" where
  \<comment> \<open>the elementwise \<^verbatim>\<open>!=\<close> of two object columns: true where a side is missing\<close>
  "ne a b = (isnull a \<or> isnull b \<or> a \<noteq> b)"

definition jump :: "shifted_row \<Rightarrow> bool" where
  \<comment> \<open>\<^verbatim>\<open>(df_logs['Country'] != df_logs['Prev_Country']) & (df_logs['Prev_Country'].notnull())\<close>\<close>
  "jump r = (ne (Country r) (Prev_Country r) \<and> notnull (Prev_Country r))"

definition impossible :: "access_log list \<Rightarrow> py_error + shifted_row list" where
  \<comment> \<open>the frame \<^verbatim>\<open>impossible\<close> of a collection that is not empty\<close>
  "impossible logs =
     (if \<not> has_column_LOCATION logs then Inl (KeyError ''LOCATION'')
      else Inr (filter jump (groupby_shift (sort_values (apply_Country (DataFrame logs))))))"

definition flagged :: "string \<Rightarrow> access_log list \<Rightarrow> shifted_row list" where
  \<comment> \<open>the rows of \<^verbatim>\<open>impossible\<close> of one subject; none when the check raises\<close>
  "flagged s logs =
     (case impossible logs of Inl e \<Rightarrow> [] | Inr rows \<Rightarrow> filter (\<lambda>r. col_ID r = s) rows)"

text \<open>What the specification says of the check.\<close>

definition country :: "access_log \<Rightarrow> pyval" where
  "country d = get_Country (cell (LOCATION d))"

definition events_of :: "string \<Rightarrow> access_log list \<Rightarrow> access_log list" where
  \<comment> \<open>the events of a subject by ascending timestamp, simultaneous ones as stored\<close>
  "events_of s logs = sort_key TIMESTAMP (filter (\<lambda>d. ID d = s) logs)"

fun adjacent_pairs :: "'a list \<Rightarrow> ('a \<times> 'a) list" where
  "adjacent_pairs (x # y # zs) = (x, y) # adjacent_pairs (y # zs)"
| "adjacent_pairs zs = []"

definition transition :: "access_log \<times> access_log \<Rightarrow> shifted_row" where
  \<comment> \<open>the row of the later event of a pair, with the country of the earlier one\<close>
  "transition pc =
     \<lparr>col_ID = ID (snd pc), col_TIMESTAMP = TIMESTAMP (snd pc),
      col_LOCATION = cell (LOCATION (snd pc)), Country = country (snd pc),
      Prev_Country = country (fst pc)\<rparr>"

text \<open>Helpers of the proofs: one group shifted alone, and a document as a row.\<close>

fun shift_one :: "pyval \<Rightarrow> country_row list \<Rightarrow> shifted_row list" where
  "shift_one prev [] = []"
| "shift_one prev (r # rs) =
     \<lparr>col_ID = col_ID r, col_TIMESTAMP = col_TIMESTAMP r, col_LOCATION = col_LOCATION r,
      Country = Country r, Prev_Country = prev\<rparr>
     # shift_one (Country r) rs"

definition to_row :: "access_log \<Rightarrow> country_row" where
  "to_row d =
     \<lparr>col_ID = ID d, col_TIMESTAMP = TIMESTAMP d, col_LOCATION = cell (LOCATION d),
      Country = country d\<rparr>"

definition changed :: "access_log \<times> access_log \<Rightarrow> bool" where
  \<comment> \<open>the earlier event of the pair has a country and the later one has another, or none\<close>
  "changed pc = (notnull (country (fst pc)) \<and> country (snd pc) \<noteq> country (fst pc))"

section \<open>The seeding of the access logs\<close>

text \<open>
  Section C of \<^verbatim>\<open>setup_all_databases.py\<close>. What the run draws at random and reads
  from the clock is an argument: \<open>rnd i\<close> holds the draws of the \<open>i\<close>-th turn of the bulk
  loop. Times are microseconds since the epoch.
\<close>

fun str_nat :: "nat \<Rightarrow> string" where
  "str_nat n = (if n < 10 then [digits ! n] else str_nat (n div 10) @ [digits ! (n mod 10)])"

declare str_nat.simps [simp del]

definition zfill :: "nat \<Rightarrow> string \<Rightarrow> string" where
  "zfill width s = replicate (width - length s) (CHR ''0'') @ s"

definition employee_ids :: "string list" where
  "employee_ids = map (\<lambda>i. ''EMP'' @ zfill 3 (str_nat i)) [1 ..< 61]"

definition vendors_ids :: "string list" where
  "vendors_ids = map (\<lambda>i. ''VEND'' @ zfill 2 (str_nat i)) [1 ..< 20]"

definition all_ids :: "string list" where
  "all_ids = employee_ids @ vendors_ids"

definition statuses :: "string list" where
  "statuses = [''Successful'', ''Failed'']"

definition location :: "string \<Rightarrow> string \<Rightarrow> pyval" where
  "location city ctry = PyDict (fmap_of_list [(''City'', PyStr city), (''Country'', PyStr ctry)])"

definition locations :: "pyval list" where
  "locations =
     [location ''London'' ''UK'', location ''Manchester'' ''UK'', location ''Berlin'' ''Germany'',
      location ''Paris'' ''France'', location ''New York'' ''USA'', location ''Tokyo'' ''Japan'']"

record draw =
  draw_id :: nat
  draw_now :: int
  draw_days :: nat
  draw_location :: nat
  draw_status :: nat

definition choice :: "'a list \<Rightarrow> nat \<Rightarrow> 'a" where
  \<comment> \<open>\<^verbatim>\<open>random.choice\<close> of a list that is not empty: any number stands for an index\<close>
  "choice xs i = xs ! (i mod length xs)"

definition randint :: "nat \<Rightarrow> nat \<Rightarrow> nat \<Rightarrow> nat" where
  \<comment> \<open>\<^verbatim>\<open>random.randint(lo, hi)\<close>, both ends included\<close>
  "randint lo hi i = lo + i mod (hi - lo + 1)"

definition timedelta_hours :: "nat \<Rightarrow> int" where
  "timedelta_hours n = int n * 3600000000"

definition timedelta_days :: "nat \<Rightarrow> int" where
  "timedelta_days n = int n * 86400000000"

definition bulk_entry :: "draw \<Rightarrow> access_log" where
  "bulk_entry r =
     \<lparr>ID = choice all_ids (draw_id r),
      TIMESTAMP = draw_now r - timedelta_days (randint 0 30 (draw_days r)),
      LOCATION = Some (choice locations (draw_location r)),
      STATUS = choice statuses (draw_status r)\<rparr>"

definition access_logs_data :: "int \<Rightarrow> int \<Rightarrow> (nat \<Rightarrow> draw) \<Rightarrow> access_log list" where
  \<comment> \<open>\<open>now0\<close> and \<open>now1\<close> are the two readings of the clock for the hand-made documents\<close>
  "access_logs_data now0 now1 rnd =
     [\<lparr>ID = ''EMP001'', TIMESTAMP = now0, LOCATION = Some (location ''London'' ''UK''),
       STATUS = ''Successful''\<rparr>,
      \<lparr>ID = ''EMP001'', TIMESTAMP = now1 + timedelta_hours 1,
       LOCATION = Some (location ''Tokyo'' ''Japan''), STATUS = ''Successful''\<rparr>]
     @ map (\<lambda>i. bulk_entry (rnd i)) [0 ..< 200]"

definition bson_datetime :: "int \<Rightarrow> int" where
  \<comment> \<open>the store keeps a time to the millisecond\<close>
  "bson_datetime t = (t div 1000) * 1000"

definition insert_many :: "access_log list \<Rightarrow> access_log list" where
  \<comment> \<open>the collection, empty before, after \<^verbatim>\<open>insert_many\<close>\<close>
  "insert_many docs = map (\<lambda>d. d\<lparr>TIMESTAMP := bson_datetime (TIMESTAMP d)\<rparr>) docs"

definition seeded_Access_logs :: "int \<Rightarrow> int \<Rightarrow> (nat \<Rightarrow> draw) \<Rightarrow> access_log list" where
  "seeded_Access_logs now0 now1 rnd = insert_many (access_logs_data now0 now1 rnd)"

section \<open>The analysis script\<close>

text \<open>
  \<^verbatim>\<open>analysis.py\<close> from top to bottom. The world it runs in says which of its reads
  raise: the block that opens the two connections, and the \<^verbatim>\<open>try\<close> block of each
  use case. The output is the list of the strings printed, one for each call of
  \<^verbatim>\<open>print\<close>. The results of the two queries that compute with floating point
  (use cases 2 and 5) are taken from the world as frames, and so is what
  \<^verbatim>\<open>strftime('%H', t)\<close> is for a text that is not a plain date and time.
\<close>

record frame =
  columns :: "string list"
  rows :: "pyval list list"

record world =
  w_today :: string
  w_connection :: "string option"
  w_db :: database
  w_strftime :: "string \<Rightarrow> string option"
  w_Access_logs :: "access_log list"
  w_Phishing_attacks :: "phishing list"
  w_raises :: "nat \<Rightarrow> string option"
  w_sla :: frame
  w_exfil :: frame

datatype outcome = Finished | SystemExit "int option" | Traceback string

definition exit_status :: "outcome \<Rightarrow> int" where
  \<comment> \<open>\<^verbatim>\<open>exit()\<close> without an argument leaves with status 0\<close>
  "exit_status t =
     (case t of Finished \<Rightarrow> 0 | SystemExit None \<Rightarrow> 0 | SystemExit (Some n) \<Rightarrow> n
      | Traceback e \<Rightarrow> 1)"

definition newline :: char where
  "newline = CHR 0x0A"

definition quote :: char where
  "quote = CHR 0x27"

fun join :: "string \<Rightarrow> string list \<Rightarrow> string" where
  "join sep [] = []"
| "join sep [x] = x"
| "join sep (x # y # zs) = x @ sep @ join sep (y # zs)"

definition empty_frame_text :: "string list \<Rightarrow> string" where
  \<comment> \<open>what pandas writes for a frame without rows\<close>
  "empty_frame_text cols =
     ''Empty DataFrame'' @ [newline] @ ''Columns: ['' @ join '', '' cols @ '']'' @ [newline] @
     ''Index: []''"

definition to_string :: "(frame \<Rightarrow> string) \<Rightarrow> frame \<Rightarrow> string" where
  \<comment> \<open>\<^verbatim>\<open>df.to_string(index=False)\<close>; \<open>render\<close> is the table of a frame with rows\<close>
  "to_string render df = (if rows df = [] then empty_frame_text (columns df) else render df)"

definition str_error :: "py_error \<Rightarrow> string" where
  "str_error e = (case e of KeyError k \<Rightarrow> [quote] @ k @ [quote])"

definition read :: "world \<Rightarrow> nat \<Rightarrow> 'a \<Rightarrow> string + 'a" where
  \<comment> \<open>the read of use case \<open>k\<close>: it raises, or returns the rows\<close>
  "read w k v = (case w_raises w k of Some e \<Rightarrow> Inl e | None \<Rightarrow> Inr v)"

definition error_line :: "string \<Rightarrow> string" where
  \<comment> \<open>\<^verbatim>\<open>except Exception as e: print(f"Error: {e}")\<close>\<close>
  "error_line e = ''Error: '' @ e"

definition text_cell :: "string option \<Rightarrow> pyval" where
  "text_cell v = (case v of Some x \<Rightarrow> PyStr x | None \<Rightarrow> PyNone)"

definition df_insider :: "(string \<times> string \<times> string) list \<Rightarrow> frame" where
  "df_insider rs =
     \<lparr>columns = [''Employee'', ''Department'', ''Access_Time''],
      rows = map (\<lambda>(a, b, c). [PyStr a, PyStr b, PyStr c]) rs\<rparr>"

definition df_identity :: "(string \<times> nat) list \<Rightarrow> frame" where
  "df_identity rs =
     \<lparr>columns = [''_id'', ''Failed_Count''], rows = map (\<lambda>(k, n). [PyStr k, PyInt (int n)]) rs\<rparr>"

definition df_travel :: "shifted_row list \<Rightarrow> frame" where
  \<comment> \<open>\<^verbatim>\<open>impossible[['_ID', 'TIMESTAMP', 'Country', 'Prev_Country']].head()\<close>\<close>
  "df_travel rs =
     \<lparr>columns = [''_ID'', ''TIMESTAMP'', ''Country'', ''Prev_Country''],
      rows = map (\<lambda>r. [PyStr (col_ID r), PyInt (col_TIMESTAMP r), Country r, Prev_Country r])
               (take 5 rs)\<rparr>"

definition df_rbac :: "(string \<times> string \<times> string) list \<Rightarrow> frame" where
  "df_rbac rs =
     \<lparr>columns = [''Employee'', ''Department'', ''file_name''],
      rows = map (\<lambda>(a, b, c). [PyStr a, PyStr b, PyStr c]) rs\<rparr>"

definition df_vuln ::
  "(string \<times> string option \<times> string option \<times> string option) list \<Rightarrow> frame" where
  "df_vuln rs =
     \<lparr>columns = [''Owner'', ''os_name'', ''os_version'', ''antivirus_status''],
      rows = map (\<lambda>(a, b, c, d). [PyStr a, text_cell b, text_cell c, text_cell d]) rs\<rparr>"

definition report1 :: "(frame \<Rightarrow> string) \<Rightarrow> string + (string \<times> string \<times> string) list \<Rightarrow> string list" where
  "report1 render result =
     [[newline] @ ''[Use Case 1] Insider Threat Detection (Access outside 08:00-20:00)''] @
     (case result of
        Inl e \<Rightarrow> [error_line e]
      | Inr rs \<Rightarrow>
          if rs \<noteq> [] then [to_string render (df_insider rs)]
          else [''>> No after-hours access detected.''])"

definition report2 :: "(frame \<Rightarrow> string) \<Rightarrow> string + frame \<Rightarrow> string list" where
  "report2 render result =
     [[newline] @ ''[Use Case 2] SLA Performance KPIs (Avg Response Time)''] @
     (case result of
        Inl e \<Rightarrow> [error_line e]
      | Inr df \<Rightarrow> [to_string render df])"

definition report3 :: "(frame \<Rightarrow> string) \<Rightarrow> string + (string \<times> nat) list \<Rightarrow> string list" where
  "report3 render result =
     [[newline] @ ''[Use Case 3] Identity Risks (Repeated Failed Logins)''] @
     (case result of
        Inl e \<Rightarrow> [error_line e]
      | Inr rs \<Rightarrow>
          if rs \<noteq> [] then [to_string render (df_identity rs)]
          else [''>> No users exceeded failure threshold.''])"

definition report4 :: "string + nat \<Rightarrow> string list" where
  "report4 result =
     [[newline] @ ''[Use Case 4] Phishing Victims (High Risk Clicks)''] @
     (case result of
        Inl e \<Rightarrow> [error_line e]
      | Inr n \<Rightarrow> [''>> Total Users Compromised: '' @ str_nat n])"

definition report5 :: "(frame \<Rightarrow> string) \<Rightarrow> string + frame \<Rightarrow> string list" where
  "report5 render result =
     [[newline] @ ''[Use Case 5] Potential Data Exfiltration (> 100MB Transfer)''] @
     (case result of
        Inl e \<Rightarrow> [error_line e]
      | Inr df \<Rightarrow>
          if rows df \<noteq> [] then [to_string render df]
          else [''>> No large transfers detected.''])"

definition travel :: "access_log list \<Rightarrow> string + (shifted_row list) option" where
  \<comment> \<open>the body of the \<^verbatim>\<open>try\<close> block of use case 6 once the documents are read:
      \<open>None\<close> when there is no document\<close>
  "travel logs =
     (if logs = [] then Inr None
      else case impossible logs of Inl e \<Rightarrow> Inl (str_error e) | Inr rs \<Rightarrow> Inr (Some rs))"

definition report6 :: "(frame \<Rightarrow> string) \<Rightarrow> string + (shifted_row list) option \<Rightarrow> string list" where
  "report6 render result =
     [[newline] @ ''[Use Case 6] Impossible Travel Detection''] @
     (case result of
        Inl e \<Rightarrow> [error_line e]
      | Inr None \<Rightarrow> [''>> No log data available.'']
      | Inr (Some rs) \<Rightarrow>
          if rs \<noteq> []
          then [''>> ALERT: '' @ str_nat (length rs) @ '' suspicious location jumps detected.'',
                to_string render (df_travel rs)]
          else [''>> No impossible travel patterns found.''])"

definition report7 :: "(frame \<Rightarrow> string) \<Rightarrow> string + (string \<times> string \<times> string) list \<Rightarrow> string list" where
  "report7 render result =
     [[newline] @ ''[Use Case 7] Segregation of Duties (RBAC) Violation''] @
     (case result of
        Inl e \<Rightarrow> [error_line e]
      | Inr rs \<Rightarrow>
          if rs \<noteq> [] then [to_string render (df_rbac rs)]
          else [''>> No RBAC violations detected.''])"

definition report8 ::
  "(frame \<Rightarrow> string) \<Rightarrow>
   string + (string \<times> string option \<times> string option \<times> string option) list \<Rightarrow> string list" where
  "report8 render result =
     [[newline] @ ''[Use Case 8] Endpoint Vulnerability Management''] @
     (case result of
        Inl e \<Rightarrow> [error_line e]
      | Inr rs \<Rightarrow>
          if rs \<noteq> []
          then [''>> ALERT: '' @ str_nat (length rs) @ '' devices require immediate patching.'',
                to_string render (df_vuln rs)]
          else [''>> All devices healthy.''])"

definition use_case :: "(frame \<Rightarrow> string) \<Rightarrow> world \<Rightarrow> nat \<Rightarrow> string list" where
  \<comment> \<open>what use case \<open>k\<close> prints, \<open>k\<close> from 1 to 8\<close>
  "use_case render w k =
     (if k = 1 then report1 render (read w 1 (query_insider (w_strftime w) (w_db w)))
      else if k = 2 then report2 render (read w 2 (w_sla w))
      else if k = 3 then report3 render (read w 3 (pipeline (w_Access_logs w)))
      else if k = 4 then report4 (read w 4 (victim_count (w_Phishing_attacks w)))
      else if k = 5 then report5 render (read w 5 (w_exfil w))
      else if k = 6 then
        report6 render (case w_raises w 6 of Some e \<Rightarrow> Inl e | None \<Rightarrow> travel (w_Access_logs w))
      else if k = 7 then report7 render (read w 7 (query_rbac (w_db w)))
      else if k = 8 then report8 render (read w 8 (query_vuln (w_db w)))
      else [])"

definition rule :: string where
  "rule = replicate 55 (CHR ''='')"

definition banner :: "world \<Rightarrow> string list" where
  "banner w =
     [rule, ''   SECURITY OPERATIONS CENTER (SOC) REPORT'', ''   Date: '' @ w_today w,
      rule @ [newline]]"

definition analysis :: "(frame \<Rightarrow> string) \<Rightarrow> world \<Rightarrow> string list \<times> outcome" where
  "analysis render w =
     (case w_connection w of
        Some e \<Rightarrow> (banner w @ [''[CRITICAL] Connection failed: '' @ e], SystemExit None)
      | None \<Rightarrow>
          (banner w @
           [''[SYSTEM] Databases Connected Successfully.'' @ [newline],
            ''--- SECTION 1: BASELINE SECURITY MONITORING ---''] @
           concat (map (use_case render w) [1, 2, 3, 4, 5, 6, 7, 8]) @
           [[newline] @ rule, ''   ANALYSIS COMPLETE'', rule],
           Finished))"

definition no_findings_messages :: "string list" where
  \<comment> \<open>the messages the script itself prints for a result without rows\<close>
  "no_findings_messages =
     [''>> No after-hours access detected.'', ''>> No users exceeded failure threshold.'',
      ''>> No large transfers detected.'', ''>> No log data available.'',
      ''>> No impossible travel patterns found.'', ''>> No RBAC violations detected.'',
      ''>> All devices healthy.'']"

section \<open>The seeding script, as far as it can fail\<close>

text \<open>
  \<^verbatim>\<open>setup_all_databases.py\<close> from top to bottom, with the statements that can raise
  and what the script does then. A print is a constructor; its argument is the text of the
  exception or the number printed.
\<close>

datatype setup_print =
  Initialization
| SQL_connected
| SQL_connection_failed string
| NoSQL_connected
| NoSQL_not_found string
| Schema_created
| Data_populated
| Generating_logs
| Inserted_access_logs nat
| Inserted_phishing nat
| Setup_complete

datatype mongo_step = Pip_install | Mongo_client | Drop_collections

record setup_world =
  s_sqlite_connect :: "string option"
  s_mongo_block :: "(mongo_step \<times> string) option"
  s_schema :: "string option"
  s_data :: "string option"
  s_insert_logs :: "string option"
  s_insert_phishing :: "string option"

definition mongoclient_bound :: "(mongo_step \<times> string) option \<Rightarrow> bool" where
  \<comment> \<open>\<^verbatim>\<open>'mongoclient' in locals() and mongoclient is not None\<close>: the name is bound
      once \<^verbatim>\<open>pymongo.MongoClient\<close> has returned\<close>
  "mongoclient_bound block =
     (case block of None \<Rightarrow> True | Some (step, e) \<Rightarrow> step = Drop_collections)"

definition section_C :: "setup_world \<Rightarrow> setup_print list \<times> outcome" where
  "section_C w =
     (if mongoclient_bound (s_mongo_block w) then
        (case s_insert_logs w of
           Some e \<Rightarrow> ([Generating_logs], Traceback e)
         | None \<Rightarrow>
             (case s_insert_phishing w of
                Some e \<Rightarrow> ([Generating_logs, Inserted_access_logs 202], Traceback e)
              | None \<Rightarrow>
                  ([Generating_logs, Inserted_access_logs 202, Inserted_phishing 100,
                    Setup_complete], Finished)))
      else ([Setup_complete], Finished))"

definition setup_all_databases :: "setup_world \<Rightarrow> setup_print list \<times> outcome" where
  "setup_all_databases w =
     (case s_sqlite_connect w of
        Some e \<Rightarrow> ([Initialization, SQL_connection_failed e], SystemExit (Some 1))
      | None \<Rightarrow>
          (let p = [Initialization, SQL_connected] @
                   (case s_mongo_block w of
                      None \<Rightarrow> [NoSQL_connected]
                    | Some (step, e) \<Rightarrow> [NoSQL_not_found e])
           in case s_schema w of
                Some e \<Rightarrow> (p, Traceback e)
              | None \<Rightarrow>
                  (case s_data w of
                     Some e \<Rightarrow> (p @ [Schema_created], Traceback e)
                   | None \<Rightarrow>
                       (p @ [Schema_created, Data_populated] @ fst (section_C w),
                        snd (section_C w)))))"

section \<open>Seeded rows and sample worlds\<close>

text \<open>
  The rows that Section B of the seeding script inserts into the four tables, for the
  employees that a file access or an endpoint refers to.
\<close>

definition emp :: "int \<Rightarrow> string \<Rightarrow> string \<Rightarrow> string \<Rightarrow> string \<Rightarrow> int \<Rightarrow> employee" where
  "emp i f l d m r =
     \<lparr>employee_id = i, first_name = f, last_name = l, Department = d, email = m, role_ID = r\<rparr>"

definition seeded_employees :: "employee list" where
  "seeded_employees =
     [emp 1 ''Alice'' ''Johnson'' ''Finance'' ''alice.johnson@bank.com'' 1,
      emp 2 ''Bob'' ''Smith'' ''IT'' ''bob.smith@bank.com'' 2,
      emp 3 ''Charlie'' ''Brown'' ''HR'' ''charlie.brown@bank.com'' 3,
      emp 4 ''David'' ''Wilson'' ''Cybersecurity'' ''david.wilson@bank.com'' 4,
      emp 5 ''Emma'' ''Davis'' ''Operations'' ''emma.davis@bank.com'' 5,
      emp 6 ''Frank'' ''Miller'' ''Finance'' ''frank.miller@bank.com'' 1,
      emp 7 ''Grace'' ''Moore'' ''IT'' ''grace.moore@bank.com'' 2,
      emp 8 ''Hannah'' ''Taylor'' ''HR'' ''hannah.taylor@bank.com'' 3,
      emp 9 ''Isaac'' ''Anderson'' ''Cybersecurity'' ''isaac.anderson@bank.com'' 4,
      emp 10 ''Jack'' ''Thomas'' ''Operations'' ''jack.thomas@bank.com'' 5,
      emp 12 ''Liam'' ''Harris'' ''IT'' ''liam.harris@bank.com'' 2,
      emp 15 ''Olivia'' ''Garcia'' ''Operations'' ''olivia.garcia@bank.com'' 5,
      emp 21 ''Uma'' ''Lee'' ''Finance'' ''uma.lee@bank.com'' 1,
      emp 30 ''Daniel'' ''Baker'' ''Operations'' ''daniel.baker@bank.com'' 5]"

definition seeded_files :: "file_data list" where
  "seeded_files =
     [\<lparr>file_id = 1, file_name = ''Sales_Report_2024_Q1.xlsx''\<rparr>,
      \<lparr>file_id = 2, file_name = ''Employee_Records_2024.xlsx''\<rparr>,
      \<lparr>file_id = 3, file_name = ''Budget_Overview_2024.xlsx''\<rparr>,
      \<lparr>file_id = 4, file_name = ''Payroll_Data_2024.csv''\<rparr>,
      \<lparr>file_id = 5, file_name = ''IT_Security_Protocols_2024.pdf''\<rparr>,
      \<lparr>file_id = 6, file_name = ''Marketing_Budgets_2024.xlsx''\<rparr>]"

definition access :: "int \<Rightarrow> int \<Rightarrow> int \<Rightarrow> string \<Rightarrow> int \<Rightarrow> file_access" where
  "access a e t ts f =
     \<lparr>access_id = a, fa_employee_id = e, fa_access_type_id = t, fa_timestamp = ts,
      fa_file_id = f\<rparr>"

definition seeded_accesses :: "file_access list" where
  "seeded_accesses =
     [access 1 7 4 ''2024-03-25 07:32:15'' 1, access 2 2 2 ''2024-03-25 09:10:53'' 2,
      access 3 15 6 ''2024-03-25 21:24:46'' 3, access 4 30 1 ''2024-03-25 11:45:20'' 4,
      access 5 21 5 ''2024-03-25 13:05:12'' 5, access 6 12 7 ''2024-03-25 22:23:39'' 6]"

definition device :: "int \<Rightarrow> int \<Rightarrow> string \<Rightarrow> string \<Rightarrow> string \<Rightarrow> string \<Rightarrow> endpoint" where
  "device i e os v p av =
     \<lparr>device_id = i, es_employee_id = Some e, os_name = Some os, os_version = Some v,
      last_patch_date = Some p, antivirus_status = Some av\<rparr>"

definition endpoint_data :: "endpoint list" where
  "endpoint_data =
     [device 1 1 ''Windows'' ''11'' ''2024-03-01'' ''Active'',
      device 2 2 ''Windows'' ''10'' ''2024-02-15'' ''Active'',
      device 3 3 ''MacOS'' ''Sonoma'' ''2024-03-10'' ''Active'',
      device 4 4 ''Windows'' ''7'' ''2020-01-14'' ''Expired'',
      device 5 5 ''Linux'' ''Ubuntu 22.04'' ''2024-03-20'' ''Active'',
      device 6 6 ''Windows'' ''10'' ''2023-11-01'' ''Disabled'',
      device 7 7 ''Windows'' ''11'' ''2024-03-05'' ''Active'',
      device 8 8 ''MacOS'' ''Ventura'' ''2023-12-20'' ''Active'',
      device 9 9 ''Windows'' ''XP'' ''2014-04-08'' ''Expired'',
      device 10 10 ''Windows'' ''11'' ''2024-03-01'' ''Active'']"

definition seeded_db :: database where
  "seeded_db =
     \<lparr>Employee_Data = seeded_employees, File_Data = seeded_files,
      File_Access = seeded_accesses, Endpoint_Security = endpoint_data\<rparr>"

text \<open>A file whose name has the word in small letters, read by an employee of IT.\<close>

definition small_letters_db :: database where
  "small_letters_db =
     \<lparr>Employee_Data = [emp 2 ''Bob'' ''Smith'' ''IT'' ''bob.smith@bank.com'' 2],
      File_Data = [\<lparr>file_id = 1, file_name = ''budget_2024.xlsx''\<rparr>],
      File_Access = [access 1 2 1 ''2024-03-25 09:10:53'' 1],
      Endpoint_Security = []\<rparr>"

text \<open>An endpoint whose antivirus status was never recorded.\<close>

definition unrecorded_device :: endpoint where
  "unrecorded_device =
     \<lparr>device_id = 11, es_employee_id = Some 2, os_name = Some ''Windows'',
      os_version = Some ''11'', last_patch_date = Some ''2024-03-01'', antivirus_status = None\<rparr>"

definition unrecorded_db :: database where
  "unrecorded_db =
     \<lparr>Employee_Data = [emp 2 ''Bob'' ''Smith'' ''IT'' ''bob.smith@bank.com'' 2],
      File_Data = [], File_Access = [], Endpoint_Security = [unrecorded_device]\<rparr>"

text \<open>Access logs: three failures of one subject, one of another.\<close>

definition login :: "string \<Rightarrow> int \<Rightarrow> pyval option \<Rightarrow> string \<Rightarrow> access_log" where
  "login s t l st = \<lparr>ID = s, TIMESTAMP = t, LOCATION = l, STATUS = st\<rparr>"

definition failures :: "access_log list" where
  "failures =
     [login ''EMP007'' 1711353600000000 (Some (location ''London'' ''UK'')) ''Failed'',
      login ''EMP002'' 1711353601000000 (Some (location ''Paris'' ''France'')) ''Failed'',
      login ''EMP007'' 1711353602000000 (Some (location ''London'' ''UK'')) ''Failed'',
      login ''EMP007'' 1711353603000000 (Some (location ''London'' ''UK'')) ''Successful'',
      login ''VEND03'' 1711353604000000 (Some (location ''Berlin'' ''Germany'')) ''Failed'',
      login ''VEND03'' 1711353605000000 (Some (location ''Berlin'' ''Germany'')) ''Failed'',
      login ''EMP007'' 1711353606000000 (Some (location ''London'' ''UK'')) ''Failed'']"

text \<open>Access logs of one subject: a document without a location, then one from the UK.\<close>

definition no_location :: access_log where
  "no_location = login ''EMP001'' 1711353600000000 None ''Successful''"

definition from_uk :: access_log where
  "from_uk = login ''EMP001'' 1711357200000000 (Some (location ''London'' ''UK'')) ''Successful''"

definition from_japan :: access_log where
  "from_japan = login ''EMP001'' 1711360800000000 (Some (location ''Tokyo'' ''Japan'')) ''Successful''"

text \<open>A phishing document.\<close>

definition phish :: "rat \<Rightarrow> bool \<Rightarrow> phishing" where
  "phish score clicked =
     \<lparr>PHISHING_ID = ''PH001'', ph_ID = ''EMP001'', ANOMALY_SCORE = score, LINK_CLICKED = clicked,
      EMAIL_SUBJECT = ''Urgent Update'', EMAIL_SENDER = ''admin@banking.com''\<rparr>"

text \<open>
  Draws of the bulk loop. In the first run no turn draws EMP001; in the second the first
  turn draws EMP001 in Berlin five days ago.
\<close>

definition vendor_draw :: draw where
  "vendor_draw =
     \<lparr>draw_id = 60, draw_now = 1711353600000100, draw_days = 1, draw_location = 0,
      draw_status = 1\<rparr>"

definition berlin_draw :: draw where
  "berlin_draw =
     \<lparr>draw_id = 0, draw_now = 1711353600000100, draw_days = 5, draw_location = 2,
      draw_status = 0\<rparr>"

definition quiet_run :: "nat \<Rightarrow> draw" where
  "quiet_run i = vendor_draw"

definition berlin_run :: "nat \<Rightarrow> draw" where
  "berlin_run i = (if i = 0 then berlin_draw else vendor_draw)"

text \<open>A store whose timestamps are plain dates and times: no other form is read.\<close>

definition no_other_form :: "string \<Rightarrow> string option" where
  "no_other_form ts = None"

text \<open>Worlds of the two scripts.\<close>

definition plain :: "frame \<Rightarrow> string" where
  \<comment> \<open>a table that shows the names of the columns only\<close>
  "plain df = join '' '' (columns df)"

definition no_sla :: frame where
  "no_sla = \<lparr>columns = [''incident_type'', ''Avg_Minutes''], rows = []\<rparr>"

definition no_exfil :: frame where
  "no_exfil = \<lparr>columns = [''Employee'', ''protocol_name'', ''Total_MB''], rows = []\<rparr>"

definition empty_db :: database where
  "empty_db = \<lparr>Employee_Data = [], File_Data = [], File_Access = [], Endpoint_Security = []\<rparr>"

definition empty_world :: world where
  \<comment> \<open>both stores are empty and the pipeline of use case 3 raises\<close>
  "empty_world =
     \<lparr>w_today = ''2024-03-25'', w_connection = None, w_db = empty_db,
      w_strftime = no_other_form, w_Access_logs = [],
      w_Phishing_attacks = [],
      w_raises = (\<lambda>k. if k = 3 then Some ''connection closed'' else None),
      w_sla = no_sla, w_exfil = no_exfil\<rparr>"

definition refused_world :: world where
  "refused_world = empty_world\<lparr>w_connection := Some ''unable to open database file''\<rparr>"

definition mongo_down :: setup_world where
  \<comment> \<open>the document store does not answer: dropping the collections raises, and so does the
      insertion later\<close>
  "mongo_down =
     \<lparr>s_sqlite_connect = None,
      s_mongo_block = Some (Drop_collections, ''ServerSelectionTimeoutError''),
      s_schema = None, s_data = None,
      s_insert_logs = Some ''ServerSelectionTimeoutError'', s_insert_phishing = None\<rparr>"

definition pip_fails :: setup_world where
  "pip_fails =
     \<lparr>s_sqlite_connect = None, s_mongo_block = Some (Pip_install, ''CalledProcessError''),
      s_schema = None, s_data = None, s_insert_logs = None, s_insert_phishing = None\<rparr>"

definition sqlite_fails :: setup_world where
  "sqlite_fails = pip_fails\<lparr>s_sqlite_connect := Some ''unable to open database file''\<rparr>"

definition all_well :: setup_world where
  "all_well =
     \<lparr>s_sqlite_connect = None, s_mongo_block = None, s_schema = None, s_data = None,
      s_insert_logs = None, s_insert_phishing = None\<rparr>"

definition schema_fails :: setup_world where
  "schema_fails = all_well\<lparr>s_schema := Some ''database is locked''\<rparr>"

definition data_fails :: setup_world where
  "data_fails = all_well\<lparr>s_data := Some ''database is locked''\<rparr>"

definition phishing_fails :: setup_world where
  "phishing_fails = all_well\<lparr>s_insert_phishing := Some ''AutoReconnect''\<rparr>"

section \<open>Lemmas on the model\<close>

subsection \<open>Substrings and \<^verbatim>\<open>LIKE\<close>\<close>

lemma starts_with_iff: "starts_with w s \<longleftrightarrow> (\<exists>post. s = w @ post)"
  by (induction w s rule: starts_with.induct) auto

lemma contains_iff: "contains w s \<longleftrightarrow> (\<exists>pre post. s = pre @ w @ post)"
proof (induction s)
  case Nil
  then show ?case by simp
next
  case (Cons c s)
  show ?case
  proof
    assume "contains w (c # s)"
    then consider "starts_with w (c # s)" | "contains w s" by (auto split: if_splits)
    then show "\<exists>pre post. c # s = pre @ w @ post"
    proof cases
      case 1
      then obtain post where "c # s = w @ post" by (auto simp: starts_with_iff)
      then have "c # s = [] @ w @ post" by simp
      then show ?thesis by blast
    next
      case 2
      then obtain pre post where "s = pre @ w @ post" using Cons.IH by auto
      then have "c # s = (c # pre) @ w @ post" by simp
      then show ?thesis by blast
    qed
  next
    assume "\<exists>pre post. c # s = pre @ w @ post"
    then obtain pre post where e: "c # s = pre @ w @ post" by auto
    show "contains w (c # s)"
    proof (cases pre)
      case Nil
      then have "starts_with w (c # s)" using e by (auto simp: starts_with_iff)
      then show ?thesis by simp
    next
      case (Cons a pre')
      then have "s = pre' @ w @ post" using e by simp
      then have "contains w s" using Cons.IH by blast
      then show ?thesis by simp
    qed
  qed
qed

lemma like_literal_prefix:
  "literal w \<Longrightarrow> like (w @ ''%'') s = starts_with (map lower w) (map lower s)"
proof (induction w arbitrary: s)
  case Nil
  show ?case by (induction s) auto
next
  case (Cons a w)
  then have "literal w" and "a \<noteq> CHR ''%''" and "a \<noteq> CHR ''_''" by (auto simp: literal_def)
  then show ?case using Cons.IH by (cases s) auto
qed

lemma like_contains:
  "literal w \<Longrightarrow> like (CHR ''%'' # w @ ''%'') s = contains_nocase w s"
proof (induction s)
  case Nil
  then show ?case
    by (cases w) (auto simp: contains_nocase_def literal_def)
next
  case (Cons c s)
  then show ?case
    using like_literal_prefix [of w "c # s"] by (simp add: contains_nocase_def)
qed

subsection \<open>The conditions of the three queries\<close>

lemma digit_val_eq: "digit_val c = (if is_digit c then Some (digit_value c) else None)"
  by (auto simp: digit_val_def digits_def is_digit_def digit_value_def)

lemma two_digits_eq:
  "two_digits a b = (if is_digit a \<and> is_digit b then Some (number2 a b) else None)"
  by (simp add: two_digits_def number2_def digit_val_eq)

lemma four_digits_eq:
  "four_digits a b c d =
     (if is_digit a \<and> is_digit b \<and> is_digit c \<and> is_digit d
      then Some (100 * number2 a b + number2 c d) else None)"
  by (simp add: four_digits_def two_digits_eq)

lemma parse_plain:
  "plain_datetime ts \<Longrightarrow> \<exists>d. parse_datetime ts = Some d \<and> dt_hour d = written_hour ts"
  by (simp add: plain_datetime_def parse_datetime_def written_hour_def two_digits_eq
      four_digits_eq)

lemma parse_not_plain: "\<not> plain_datetime ts \<Longrightarrow> parse_datetime ts = None"
  by (auto simp: plain_datetime_def parse_datetime_def written_hour_def two_digits_eq
      four_digits_eq split: if_splits)

lemma two_digit_order:
  "\<forall>a \<in> set ''0123456789''. \<forall>b \<in> set ''0123456789''.
     ([a, b] < ''08'') = (number2 a b < 8) \<and> (''20'' \<le> [a, b]) = (20 \<le> number2 a b) \<and>
     zero_padded2 (number2 a b) = [a, b]"
  by code_simp

lemma two_digits_order:
  assumes "is_digit a" and "is_digit b"
  shows "([a, b] < ''08'') = (number2 a b < 8)" and "(''20'' \<le> [a, b]) = (20 \<le> number2 a b)"
    and "zero_padded2 (number2 a b) = [a, b]"
  using assms two_digit_order unfolding is_digit_def by blast+

lemma strftime_H_plain:
  "plain_datetime ts \<Longrightarrow> strftime_H other ts = Some [ts ! 11, ts ! 12]"
proof -
  assume p: "plain_datetime ts"
  then obtain d where "parse_datetime ts = Some d" "dt_hour d = written_hour ts"
    using parse_plain by blast
  moreover have "is_digit (ts ! 11)" "is_digit (ts ! 12)"
    using p by (simp_all add: plain_datetime_def)
  ultimately show ?thesis
    by (simp add: strftime_H_def written_hour_def two_digits_order)
qed

lemma strftime_H_other: "\<not> plain_datetime ts \<Longrightarrow> strftime_H other ts = other ts"
  by (simp add: strftime_H_def parse_not_plain)

lemma where_text:
  assumes "(t < ''08'') = P" and "(''20'' \<le> t) = Q"
  shows "sql_where (sql_or (sql_lt (Some t) (Some ''08'')) (sql_ge (Some t) (Some ''20''))) \<longleftrightarrow>
     P \<or> Q"
  using assms by (auto simp: sql_where_def sql_or_def sql_lt_def sql_ge_def)

lemma where_two_digits:
  assumes "is_digit a" and "is_digit b"
  shows "sql_where (sql_or (sql_lt (Some [a, b]) (Some ''08'')) (sql_ge (Some [a, b]) (Some ''20'')))
     \<longleftrightarrow> number2 a b < 8 \<or> 20 \<le> number2 a b"
  by (rule where_text [OF two_digits_order(1,2) [OF assms]])

lemma insider_where_iff:
  assumes "hours_as_text other"
  shows "sql_where (insider_where other ts) \<longleftrightarrow>
     (\<exists>h. timestamp_hour other ts = Some h \<and> (h < 8 \<or> 20 \<le> h))"
proof (cases "plain_datetime ts")
  case True
  then have "is_digit (ts ! 11)" "is_digit (ts ! 12)"
    by (simp_all add: plain_datetime_def)
  then have "sql_where (insider_where other ts) \<longleftrightarrow>
      number2 (ts ! 11) (ts ! 12) < 8 \<or> 20 \<le> number2 (ts ! 11) (ts ! 12)"
    unfolding insider_where_def strftime_H_plain [OF True] by (rule where_two_digits)
  then show ?thesis using True by (simp add: timestamp_hour_def written_hour_def)
next
  case False
  show ?thesis
  proof (cases "other ts")
    case None
    then show ?thesis using False
      by (simp add: insider_where_def strftime_H_other timestamp_hour_def sql_where_def
          sql_or_def sql_lt_def sql_ge_def)
  next
    case (Some t)
    then have "two_digit_text t" using assms by (simp add: hours_as_text_def)
    then obtain a b where t: "t = [a, b]" and d: "is_digit a" "is_digit b"
      by (cases t; cases "tl t") (auto simp: two_digit_text_def)
    have "sql_where (insider_where other ts) \<longleftrightarrow> number2 a b < 8 \<or> 20 \<le> number2 a b"
      unfolding insider_where_def strftime_H_other [OF False] Some t
      using d by (rule where_two_digits)
    then show ?thesis using False Some t by (simp add: timestamp_hour_def)
  qed
qed

lemma boundary_hours:
  assumes "plain_datetime ts"
  shows "sql_where (insider_where other ts) \<longleftrightarrow> written_hour ts < 8 \<or> 20 \<le> written_hour ts"
proof -
  have "is_digit (ts ! 11)" "is_digit (ts ! 12)"
    using assms by (simp_all add: plain_datetime_def)
  then show ?thesis
    unfolding insider_where_def strftime_H_plain [OF assms] written_hour_def
    by (rule where_two_digits)
qed

lemma vuln_where_iff:
  "sql_where (vuln_where status version) \<longleftrightarrow>
     (\<exists>v. status = Some v \<and> v \<noteq> ''Active'') \<or> version = Some ''XP'' \<or> version = Some ''7''"
  by (cases status; cases version)
     (auto simp: vuln_where_def sql_where_def sql_or_def sql_ne_def sql_in_def)

lemma set_join2:
  "set [g a b. a \<leftarrow> A, b \<leftarrow> B, P a b, Q a] =
     {g a b | a b. a \<in> set A \<and> b \<in> set B \<and> P a b \<and> Q a}"
  by (auto split: if_splits) blast+

lemma set_join3:
  "set [g a b c. a \<leftarrow> A, b \<leftarrow> B, P a b, c \<leftarrow> C, P' a c, Q b c] =
     {g a b c | a b c. a \<in> set A \<and> b \<in> set B \<and> c \<in> set C \<and> P a b \<and> P' a c \<and> Q b c}"
  by auto

lemma rbac_where_iff:
  "rbac_where dept fname \<longleftrightarrow>
     dept \<noteq> ''Finance'' \<and> dept \<noteq> ''HR'' \<and>
     (contains_nocase ''Budget'' fname \<or> contains_nocase ''Payroll'' fname)"
proof -
  have "like ''%Budget%'' fname = contains_nocase ''Budget'' fname"
    using like_contains [of "''Budget''" fname] by (simp add: literal_def)
  moreover have "like ''%Payroll%'' fname = contains_nocase ''Payroll'' fname"
    using like_contains [of "''Payroll''" fname] by (simp add: literal_def)
  ultimately show ?thesis by (simp add: rbac_where_def)
qed

subsection \<open>The impossible-travel check, subject by subject\<close>

lemma apply_Country_DataFrame: "apply_Country (DataFrame logs) = map to_row logs"
  by (simp add: apply_Country_def DataFrame_def to_row_def country_def)

lemma col_ID_to_row [simp]: "col_ID (to_row d) = ID d"
  by (simp add: to_row_def)

lemma col_TIMESTAMP_to_row [simp]: "col_TIMESTAMP (to_row d) = TIMESTAMP d"
  by (simp add: to_row_def)

lemma Country_to_row [simp]: "Country (to_row d) = country d"
  by (simp add: to_row_def)

lemma filter_shift_in_groups:
  "filter (\<lambda>r. col_ID r = s) (shift_in_groups seen df) =
     shift_one (seen s) (filter (\<lambda>r. col_ID r = s) df)"
  by (induction df arbitrary: seen) auto

lemma insort_key_same_group:
  "col_ID x = s \<Longrightarrow> \<forall>r \<in> set ys. col_ID r = s \<Longrightarrow>
     insort_key (\<lambda>r. (col_ID r, col_TIMESTAMP r)) x ys = insort_key col_TIMESTAMP x ys"
  by (induction ys) auto

lemma sort_key_same_group:
  "\<forall>r \<in> set xs. col_ID r = s \<Longrightarrow>
     sort_key (\<lambda>r. (col_ID r, col_TIMESTAMP r)) xs = sort_key col_TIMESTAMP (xs :: country_row list)"
proof (induction xs)
  case Nil
  then show ?case by simp
next
  case (Cons x xs)
  then have "sort_key (\<lambda>r. (col_ID r, col_TIMESTAMP r)) xs = sort_key col_TIMESTAMP xs" by simp
  moreover have "\<forall>r \<in> set (sort_key col_TIMESTAMP xs). col_ID r = s" using Cons.prems by simp
  ultimately show ?case using Cons.prems
    by (simp add: insort_key_same_group)
qed

lemma filter_sort_values:
  "filter (\<lambda>r. col_ID r = s) (sort_values df) =
     sort_key col_TIMESTAMP (filter (\<lambda>r. col_ID r = s) df)"
proof -
  have "filter (\<lambda>r. col_ID r = s) (sort_values df) =
      sort_key (\<lambda>r. (col_ID r, col_TIMESTAMP r)) (filter (\<lambda>r. col_ID r = s) df)"
    by (simp add: sort_values_def filter_sort)
  also have "\<dots> = sort_key col_TIMESTAMP (filter (\<lambda>r. col_ID r = s) df)"
    by (rule sort_key_same_group [where s = s]) simp
  finally show ?thesis .
qed

lemma insort_key_to_row:
  "insort_key col_TIMESTAMP (to_row x) (map to_row ys) = map to_row (insort_key TIMESTAMP x ys)"
  by (induction ys) auto

lemma sort_key_to_row:
  "sort_key col_TIMESTAMP (map to_row xs) = map to_row (sort_key TIMESTAMP xs)"
  by (induction xs) (auto simp: insort_key_to_row)

lemma jump_iff:
  "jump \<lparr>col_ID = i, col_TIMESTAMP = t, col_LOCATION = l, Country = c, Prev_Country = p\<rparr> \<longleftrightarrow>
     notnull p \<and> c \<noteq> p"
  by (auto simp: jump_def ne_def notnull_def)

lemma filter_jump_shift_one:
  "filter jump (shift_one p (map to_row es)) =
     (case es of [] \<Rightarrow> []
      | e # _ \<Rightarrow> if notnull p \<and> country e \<noteq> p
                 then [\<lparr>col_ID = ID e, col_TIMESTAMP = TIMESTAMP e, col_LOCATION = cell (LOCATION e),
                        Country = country e, Prev_Country = p\<rparr>] else [])
     @ map transition (filter changed (adjacent_pairs es))"
proof (induction es arbitrary: p)
  case Nil
  then show ?case by simp
next
  case (Cons e es)
  show ?case
  proof (cases es)
    case Nil
    then show ?thesis by (simp add: jump_iff to_row_def)
  next
    case (Cons e' es')
    then show ?thesis using Cons.IH [of "country e"]
      by (simp add: jump_iff to_row_def transition_def changed_def)
  qed
qed

lemma flagged_eq:
  assumes "has_column_LOCATION logs"
  shows "flagged s logs = map transition (filter changed (adjacent_pairs (events_of s logs)))"
proof -
  have "flagged s logs =
      filter jump (filter (\<lambda>r. col_ID r = s) (groupby_shift (sort_values (map to_row logs))))"
    using assms by (simp add: flagged_def impossible_def apply_Country_DataFrame conj_commute)
  also have "\<dots> = filter jump (shift_one PyNaN (map to_row (events_of s logs)))"
    by (simp add: groupby_shift_def filter_shift_in_groups filter_sort_values filter_map o_def
        sort_key_to_row events_of_def)
  also have "\<dots> = map transition (filter changed (adjacent_pairs (events_of s logs)))"
    by (simp add: filter_jump_shift_one notnull_def isnull_def split: list.splits)
  finally show ?thesis .
qed

subsection \<open>The pipeline and the count\<close>

lemma failed_count_alt:
  "length (filter (\<lambda>d. ID d = k) (match_status ''Failed'' docs)) = failed_count docs k"
  by (simp add: match_status_def failed_count_def conj_commute)

lemma set_group_sum1:
  "set (match_gte 2 (group_sum1 (match_status ''Failed'' docs))) =
     {(s, n). n = failed_count docs s \<and> 2 \<le> n}"
proof -
  have "failed_count docs s = 0" if "s \<notin> ID ` set (match_status ''Failed'' docs)" for s
  proof -
    have "filter (\<lambda>d. ID d = s) (match_status ''Failed'' docs) = []"
      using that by (auto simp: filter_empty_conv)
    then show ?thesis using failed_count_alt [of s docs] by simp
  qed
  then have "2 \<le> failed_count docs s \<Longrightarrow> s \<in> ID ` set (match_status ''Failed'' docs)" for s
    by (metis not_numeral_le_zero)
  then show ?thesis
    by (auto simp: match_gte_def group_sum1_def failed_count_alt)
qed

lemma distinct_group_sum1:
  "distinct (map fst (match_gte 2 (group_sum1 (match_status ''Failed'' docs))))"
proof -
  have "distinct (map fst (group_sum1 M))" for M
    by (simp add: group_sum1_def o_def)
  then show ?thesis
    unfolding match_gte_def by (rule distinct_map_filter)
qed

lemma distinct_map_sort_key:
  "distinct (map g (sort_key f xs)) = distinct (map g xs)"
  by (simp add: distinct_map)

lemma sorted_sort_descending:
  "sorted_wrt (\<lambda>a b. snd b \<le> snd a) (sort_descending groups)"
proof -
  have "sorted (map (\<lambda>g. - int (snd g)) (sort_descending groups))"
    by (simp add: sort_descending_def)
  then show ?thesis by (simp add: sorted_map)
qed

lemma victim_count_append:
  "victim_count (xs @ d # ys) = (if query_phish d then Suc (victim_count (xs @ ys)) else victim_count (xs @ ys))"
  by (simp add: victim_count_def count_documents_def)

subsection \<open>Adjacent pairs of a sorted list\<close>

lemma adjacent_pairs_zip: "adjacent_pairs xs = zip xs (tl xs)"
  by (induction xs rule: adjacent_pairs.induct) auto

lemma nth_adjacent_pairs:
  assumes "Suc k < length xs"
  shows "(xs ! k, xs ! Suc k) \<in> set (adjacent_pairs xs)"
proof -
  have "k < length (zip xs (tl xs))" using assms by simp
  then have "zip xs (tl xs) ! k \<in> set (zip xs (tl xs))" by (rule nth_mem)
  moreover have "zip xs (tl xs) ! k = (xs ! k, xs ! Suc k)"
    using assms by (simp add: nth_tl)
  ultimately show ?thesis by (simp add: adjacent_pairs_zip)
qed

lemma in_set_tl: "x \<in> set (tl xs) \<Longrightarrow> x \<in> set xs"
  by (cases xs) auto

lemma adjacent_pairs_subset:
  "pc \<in> set (adjacent_pairs xs) \<Longrightarrow> fst pc \<in> set xs \<and> snd pc \<in> set xs"
  unfolding adjacent_pairs_zip
  by (cases pc) (auto dest: set_zip_leftD set_zip_rightD in_set_tl)

lemma change_between:
  "i \<le> j \<Longrightarrow> g (xs ! i) \<noteq> g (xs ! j) \<Longrightarrow>
     \<exists>k. i \<le> k \<and> k < j \<and> g (xs ! k) \<noteq> g (xs ! Suc k)"
proof (induction j)
  case 0
  then show ?case by simp
next
  case (Suc j)
  from Suc.prems have ij: "i \<le> j" by (cases "i = Suc j") auto
  show ?case
  proof (cases "g (xs ! j) = g (xs ! Suc j)")
    case True
    with Suc.prems have "g (xs ! i) \<noteq> g (xs ! j)" by simp
    with ij Suc.IH obtain k where "i \<le> k" "k < j" "g (xs ! k) \<noteq> g (xs ! Suc k)" by blast
    then show ?thesis by (intro exI [of _ k]) simp
  next
    case False
    with ij show ?thesis by (intro exI [of _ j]) simp
  qed
qed

lemma any_change:
  assumes "a \<in> set es" and "b \<in> set es" and "g a \<noteq> g b"
  shows "\<exists>pc \<in> set (adjacent_pairs es). g (fst pc) \<noteq> g (snd pc)"
proof -
  from assms(1) obtain i where i: "i < length es" "es ! i = a" by (auto simp: in_set_conv_nth)
  from assms(2) obtain j where j: "j < length es" "es ! j = b" by (auto simp: in_set_conv_nth)
  have "\<exists>k. Suc k < length es \<and> g (es ! k) \<noteq> g (es ! Suc k)"
  proof (cases "i \<le> j")
    case True
    then obtain k where "i \<le> k" "k < j" "g (es ! k) \<noteq> g (es ! Suc k)"
      using change_between [of i j g es] i j assms(3) by auto
    then show ?thesis using j(1) by (intro exI [of _ k]) simp
  next
    case False
    then have "j \<le> i" by simp
    moreover have "g (es ! j) \<noteq> g (es ! i)" using i j assms(3) by auto
    ultimately obtain k where "j \<le> k" "k < i" "g (es ! k) \<noteq> g (es ! Suc k)"
      using change_between [of j i g es] by blast
    then show ?thesis using i(1) by (intro exI [of _ k]) simp
  qed
  then obtain k where k: "Suc k < length es" "g (es ! k) \<noteq> g (es ! Suc k)" by blast
  from k(1) have "(es ! k, es ! Suc k) \<in> set (adjacent_pairs es)" by (rule nth_adjacent_pairs)
  with k(2) show ?thesis by force
qed

subsection \<open>The seeded collection\<close>

lemma country_location [simp]: "get_Country (location city ctry) = PyStr ctry"
  by (simp add: get_Country_def location_def)

lemma choice_mem: "xs \<noteq> [] \<Longrightarrow> choice xs i \<in> set xs"
  by (simp add: choice_def)

lemma country_locations: "l \<in> set locations \<Longrightarrow> \<exists>c. get_Country l = PyStr c"
  by (auto simp: locations_def)

lemma country_bulk_entry: "\<exists>c. country (bulk_entry r) = PyStr c"
proof -
  have "choice locations (draw_location r) \<in> set locations"
    by (rule choice_mem) (simp add: locations_def)
  then show ?thesis
    using country_locations by (simp add: country_def bulk_entry_def cell_def)
qed

lemma country_insert_many [simp]: "country (d\<lparr>TIMESTAMP := t\<rparr>) = country d"
  by (simp add: country_def)

lemma seeded_split:
  "seeded_Access_logs now0 now1 rnd =
     \<lparr>ID = ''EMP001'', TIMESTAMP = bson_datetime now0,
       LOCATION = Some (location ''London'' ''UK''), STATUS = ''Successful''\<rparr> #
     \<lparr>ID = ''EMP001'', TIMESTAMP = bson_datetime (now1 + timedelta_hours 1),
       LOCATION = Some (location ''Tokyo'' ''Japan''), STATUS = ''Successful''\<rparr> #
     map (\<lambda>i. (bulk_entry (rnd i))\<lparr>TIMESTAMP := bson_datetime (TIMESTAMP (bulk_entry (rnd i)))\<rparr>)
       [0 ..< 200]"
  by (simp add: seeded_Access_logs_def insert_many_def access_logs_data_def o_def)

lemma seeded_notnull:
  "d \<in> set (seeded_Access_logs now0 now1 rnd) \<Longrightarrow> \<exists>c. country d = PyStr c"
  unfolding seeded_split using country_bulk_entry
  by (auto simp: country_def cell_def)

lemma seeded_has_column: "has_column_LOCATION (seeded_Access_logs now0 now1 rnd)"
  unfolding seeded_split by (simp add: has_column_LOCATION_def)

lemma seeded_at_least_one:
  "1 \<le> length (flagged ''EMP001'' (seeded_Access_logs now0 now1 rnd))"
proof -
  let ?S = "seeded_Access_logs now0 now1 rnd"
  let ?es = "events_of ''EMP001'' ?S"
  let ?a = "\<lparr>ID = ''EMP001'', TIMESTAMP = bson_datetime now0,
       LOCATION = Some (location ''London'' ''UK''), STATUS = ''Successful''\<rparr>"
  let ?b = "\<lparr>ID = ''EMP001'', TIMESTAMP = bson_datetime (now1 + timedelta_hours 1),
       LOCATION = Some (location ''Tokyo'' ''Japan''), STATUS = ''Successful''\<rparr>"
  have "?a \<in> set ?S" and "?b \<in> set ?S"
    by (simp_all add: seeded_split)
  then have a: "?a \<in> set ?es" and b: "?b \<in> set ?es"
    by (simp_all add: events_of_def)
  have "country ?a \<noteq> country ?b" by (simp add: country_def cell_def)
  then obtain pc where pc: "pc \<in> set (adjacent_pairs ?es)" "country (fst pc) \<noteq> country (snd pc)"
    using any_change [of ?a ?es ?b country] a b by blast
  have "fst pc \<in> set ?es" using adjacent_pairs_subset [OF pc(1)] by simp
  then have "fst pc \<in> set ?S" by (simp add: events_of_def)
  then obtain c where "country (fst pc) = PyStr c" using seeded_notnull by blast
  with pc(2) have "changed pc" by (auto simp: changed_def notnull_def isnull_def)
  with pc(1) have "filter changed (adjacent_pairs ?es) \<noteq> []" by (auto simp: filter_empty_conv)
  then have "1 \<le> length (filter changed (adjacent_pairs ?es))"
    by (simp add: Suc_le_eq)
  then show ?thesis by (simp add: flagged_eq [OF seeded_has_column])
qed

lemma seeded_exactly_one:
  assumes "\<forall>i < 200. ID (bulk_entry (rnd i)) \<noteq> ''EMP001''"
  shows "length (flagged ''EMP001'' (seeded_Access_logs now0 now1 rnd)) = 1"
proof -
  let ?S = "seeded_Access_logs now0 now1 rnd"
  let ?a = "\<lparr>ID = ''EMP001'', TIMESTAMP = bson_datetime now0,
       LOCATION = Some (location ''London'' ''UK''), STATUS = ''Successful''\<rparr>"
  let ?b = "\<lparr>ID = ''EMP001'', TIMESTAMP = bson_datetime (now1 + timedelta_hours 1),
       LOCATION = Some (location ''Tokyo'' ''Japan''), STATUS = ''Successful''\<rparr>"
  have "filter (\<lambda>d. ID d = ''EMP001'') ?S = [?a, ?b]"
    unfolding seeded_split using assms by (simp add: filter_empty_conv)
  then have "events_of ''EMP001'' ?S = [?a, ?b] \<or> events_of ''EMP001'' ?S = [?b, ?a]"
    by (simp add: events_of_def)
  then show ?thesis
    by (auto simp: flagged_eq [OF seeded_has_column] changed_def country_def cell_def
        notnull_def isnull_def)
qed

section \<open>The claims\<close>

lemmas date_defs =
  strftime_H_def parse_datetime_def two_digits_def four_digits_def digit_val_def digits_def
  zero_padded2_def

lemmas plain_defs =
  plain_datetime_def written_hour_def number2_def digit_value_def is_digit_def

subsection \<open>C1: impossible travel after a seeding run\<close>

lemma all_ids_length: "length all_ids = 79"
  by code_simp

lemma all_ids_first: "all_ids ! 0 = ''EMP001''"
  by code_simp

lemma all_ids_vendor: "all_ids ! 60 = ''VEND01''"
  by code_simp

lemma bulk_entry_vendor:
  "bulk_entry vendor_draw =
     \<lparr>ID = ''VEND01'', TIMESTAMP = 1711267200000100,
      LOCATION = Some (location ''London'' ''UK''), STATUS = ''Failed''\<rparr>"
  by (simp add: bulk_entry_def vendor_draw_def choice_def randint_def timedelta_days_def
      all_ids_length all_ids_vendor locations_def statuses_def)

lemma bulk_entry_berlin:
  "bulk_entry berlin_draw =
     \<lparr>ID = ''EMP001'', TIMESTAMP = 1710921600000100,
      LOCATION = Some (location ''Berlin'' ''Germany''), STATUS = ''Successful''\<rparr>"
  by (simp add: bulk_entry_def berlin_draw_def choice_def randint_def timedelta_days_def
      all_ids_length all_ids_first locations_def statuses_def)

text \<open>
  C1, as amended. After a seeding run the check flags at least one transition of EMP001,
  whatever the bulk loop draws and whatever the clock reads; it flags exactly one when no
  turn of the bulk loop draws EMP001.
\<close>

theorem seeded_impossible_travel:
  "1 \<le> length (flagged ''EMP001'' (seeded_Access_logs now0 now1 rnd)) \<and>
   ((\<forall>i < 200. ID (bulk_entry (rnd i)) \<noteq> ''EMP001'') \<longrightarrow>
      length (flagged ''EMP001'' (seeded_Access_logs now0 now1 rnd)) = 1)"
  using seeded_at_least_one seeded_exactly_one by blast

theorem seeded_impossible_travel_witness:
  "ID (bulk_entry vendor_draw) = ''VEND01'' \<and>
   1 \<le> length (flagged ''EMP001''
         (seeded_Access_logs 1711353600000000 1711353600000007 quiet_run)) \<and>
   length (flagged ''EMP001'' (seeded_Access_logs 1711353600000000 1711353600000007 quiet_run)) = 1"
proof -
  have v: "ID (bulk_entry vendor_draw) = ''VEND01''"
    by (simp add: bulk_entry_vendor)
  then have none: "\<forall>i < 200. ID (bulk_entry (quiet_run i)) \<noteq> ''EMP001''"
    by (simp add: quiet_run_def)
  from seeded_impossible_travel [of 1711353600000000 1711353600000007 quiet_run] none v
  show ?thesis by blast
qed

text \<open>
  C1 as it stands fails when a turn of the bulk loop draws EMP001: with one such
  document, from Berlin five days before the run, two transitions of EMP001 are flagged.
\<close>

theorem seeded_impossible_travel_counterexample:
  "length (flagged ''EMP001'' (seeded_Access_logs 1711353600000000 1711353600000007 berlin_run)) = 2"
proof -
  let ?S = "seeded_Access_logs 1711353600000000 1711353600000007 berlin_run"
  define f where "f = (\<lambda>i. (bulk_entry (berlin_run i))
      \<lparr>TIMESTAMP := bson_datetime (TIMESTAMP (bulk_entry (berlin_run i)))\<rparr>)"
  have upt: "[0 ..< 200] = 0 # [Suc 0 ..< 200]" by (simp add: upt_conv_Cons)
  have f0: "f 0 = \<lparr>ID = ''EMP001'', TIMESTAMP = 1710921600000000,
         LOCATION = Some (location ''Berlin'' ''Germany''), STATUS = ''Successful''\<rparr>"
    by (simp add: f_def berlin_run_def bulk_entry_berlin bson_datetime_def)
  have fi: "ID (f i) = ''VEND01''" if "i \<noteq> 0" for i
    using that by (simp add: f_def berlin_run_def bulk_entry_vendor)
  have rest: "filter (\<lambda>d. ID d = ''EMP001'') (map f [Suc 0 ..< 200]) = []"
    by (auto simp: filter_empty_conv fi)
  have S: "?S =
      \<lparr>ID = ''EMP001'', TIMESTAMP = 1711353600000000,
         LOCATION = Some (location ''London'' ''UK''), STATUS = ''Successful''\<rparr> #
      \<lparr>ID = ''EMP001'', TIMESTAMP = 1711357200000000,
         LOCATION = Some (location ''Tokyo'' ''Japan''), STATUS = ''Successful''\<rparr> #
      f 0 # map f [Suc 0 ..< 200]"
    unfolding seeded_split f_def upt by (simp add: bson_datetime_def timedelta_hours_def)
  have "filter (\<lambda>d. ID d = ''EMP001'') ?S =
      [\<lparr>ID = ''EMP001'', TIMESTAMP = 1711353600000000,
         LOCATION = Some (location ''London'' ''UK''), STATUS = ''Successful''\<rparr>,
       \<lparr>ID = ''EMP001'', TIMESTAMP = 1711357200000000,
         LOCATION = Some (location ''Tokyo'' ''Japan''), STATUS = ''Successful''\<rparr>,
       \<lparr>ID = ''EMP001'', TIMESTAMP = 1710921600000000,
         LOCATION = Some (location ''Berlin'' ''Germany''), STATUS = ''Successful''\<rparr>]"
    unfolding S by (simp add: rest f0)
  then have "events_of ''EMP001'' ?S =
      [\<lparr>ID = ''EMP001'', TIMESTAMP = 1710921600000000,
         LOCATION = Some (location ''Berlin'' ''Germany''), STATUS = ''Successful''\<rparr>,
       \<lparr>ID = ''EMP001'', TIMESTAMP = 1711353600000000,
         LOCATION = Some (location ''London'' ''UK''), STATUS = ''Successful''\<rparr>,
       \<lparr>ID = ''EMP001'', TIMESTAMP = 1711357200000000,
         LOCATION = Some (location ''Tokyo'' ''Japan''), STATUS = ''Successful''\<rparr>]"
    by (simp add: events_of_def)
  then show ?thesis
    by (simp add: flagged_eq [OF seeded_has_column] changed_def country_def cell_def
        notnull_def isnull_def)
qed

subsection \<open>C2: segregation of duties\<close>

lemma contains_nocase_iff:
  "contains_nocase w s \<longleftrightarrow> (\<exists>pre m post. s = pre @ m @ post \<and> map lower m = map lower w)"
proof
  assume "contains_nocase w s"
  then obtain pre post where "map lower s = pre @ map lower w @ post"
    by (auto simp: contains_nocase_def contains_iff)
  then obtain a b c where "s = a @ b @ c" and "map lower b = map lower w"
    by (metis append_eq_map_conv)
  then show "\<exists>pre m post. s = pre @ m @ post \<and> map lower m = map lower w" by blast
next
  assume "\<exists>pre m post. s = pre @ m @ post \<and> map lower m = map lower w"
  then obtain pre m post where "s = pre @ m @ post" and "map lower m = map lower w" by blast
  then have "map lower s = map lower pre @ map lower w @ map lower post" by simp
  then show "contains_nocase w s"
    unfolding contains_nocase_def contains_iff by blast
qed

lemma query_rbac_seeded:
  "query_rbac seeded_db =
     [(''Olivia Garcia'', ''Operations'', ''Budget_Overview_2024.xlsx''),
      (''Daniel Baker'', ''Operations'', ''Payroll_Data_2024.csv''),
      (''Liam Harris'', ''IT'', ''Marketing_Budgets_2024.xlsx'')]"
  by (simp add: query_rbac_def seeded_db_def seeded_accesses_def seeded_employees_def
      seeded_files_def access_def emp_def full_name_def rbac_where_def lower_def)

text \<open>
  C2, as amended. The query returns exactly the joined rows whose department is neither
  Finance nor HR and whose file name contains Budget or Payroll when the case of the letters
  A-Z is ignored: SQLite's \<^verbatim>\<open>LIKE\<close> does not tell the case of these letters apart. An
  employee of IT is flagged for \<^verbatim>\<open>Q1_Budget_Review.xlsx\<close>, and for the same name in
  small letters, not for \<^verbatim>\<open>Q1_Sales.xlsx\<close>; an employee of Finance is not flagged for
  \<^verbatim>\<open>Budget.xlsx\<close>.
\<close>

theorem query_rbac_ignores_case:
  "set (query_rbac db) =
     {(full_name e, Department e, file_name f) | fa e f.
        fa \<in> set (File_Access db) \<and> e \<in> set (Employee_Data db) \<and> f \<in> set (File_Data db) \<and>
        fa_employee_id fa = employee_id e \<and> fa_file_id fa = file_id f \<and>
        Department e \<noteq> ''Finance'' \<and> Department e \<noteq> ''HR'' \<and>
        (contains_nocase ''Budget'' (file_name f) \<or> contains_nocase ''Payroll'' (file_name f))} \<and>
   rbac_where ''IT'' ''Q1_Budget_Review.xlsx'' \<and>
   rbac_where ''IT'' ''q1_budget_review.xlsx'' \<and>
   \<not> rbac_where ''IT'' ''Q1_Sales.xlsx'' \<and>
   \<not> rbac_where ''Finance'' ''Budget.xlsx''"
proof -
  have "set (query_rbac db) =
     {(full_name e, Department e, file_name f) | fa e f.
        fa \<in> set (File_Access db) \<and> e \<in> set (Employee_Data db) \<and> f \<in> set (File_Data db) \<and>
        fa_employee_id fa = employee_id e \<and> fa_file_id fa = file_id f \<and>
        Department e \<noteq> ''Finance'' \<and> Department e \<noteq> ''HR'' \<and>
        (contains_nocase ''Budget'' (file_name f) \<or> contains_nocase ''Payroll'' (file_name f))}"
    unfolding query_rbac_def set_join3 rbac_where_iff ..
  moreover have "rbac_where ''IT'' ''Q1_Budget_Review.xlsx''"
    by (simp add: rbac_where_def lower_def)
  moreover have "rbac_where ''IT'' ''q1_budget_review.xlsx''"
    by (simp add: rbac_where_def lower_def)
  moreover have "\<not> rbac_where ''IT'' ''Q1_Sales.xlsx''"
    by (simp add: rbac_where_def lower_def)
  moreover have "\<not> rbac_where ''Finance'' ''Budget.xlsx''"
    by (simp add: rbac_where_def)
  ultimately show ?thesis by blast
qed

theorem query_rbac_ignores_case_witness:
  "(''Bob Smith'', ''IT'', ''budget_2024.xlsx'') \<in> set (query_rbac small_letters_db)"
proof -
  let ?e = "emp 2 ''Bob'' ''Smith'' ''IT'' ''bob.smith@bank.com'' 2"
  let ?f = "\<lparr>file_id = 1, file_name = ''budget_2024.xlsx''\<rparr>"
  let ?fa = "access 1 2 1 ''2024-03-25 09:10:53'' 1"
  have "contains_nocase ''Budget'' (file_name ?f)"
    by (simp add: contains_nocase_def lower_def)
  then have "?fa \<in> set (File_Access small_letters_db) \<and> ?e \<in> set (Employee_Data small_letters_db) \<and>
      ?f \<in> set (File_Data small_letters_db) \<and>
      fa_employee_id ?fa = employee_id ?e \<and> fa_file_id ?fa = file_id ?f \<and>
      Department ?e \<noteq> ''Finance'' \<and> Department ?e \<noteq> ''HR'' \<and>
      (contains_nocase ''Budget'' (file_name ?f) \<or> contains_nocase ''Payroll'' (file_name ?f))"
    by (simp add: small_letters_db_def emp_def access_def)
  moreover have "(''Bob Smith'', ''IT'', ''budget_2024.xlsx'') =
      (full_name ?e, Department ?e, file_name ?f)"
    by (simp add: full_name_def emp_def)
  ultimately show ?thesis
    using query_rbac_ignores_case [of small_letters_db] by blast
qed

text \<open>
  C2 as it stands says that a file name with the word in another letter case is not
  flagged. An employee of IT who reads \<^verbatim>\<open>budget_2024.xlsx\<close>, which contains neither
  Budget nor Payroll in that case, is flagged.
\<close>

theorem query_rbac_counterexample:
  "query_rbac small_letters_db = [(''Bob Smith'', ''IT'', ''budget_2024.xlsx'')] \<and>
   \<not> contains ''Budget'' ''budget_2024.xlsx'' \<and> \<not> contains ''Payroll'' ''budget_2024.xlsx''"
  by (simp add: query_rbac_def small_letters_db_def emp_def access_def full_name_def
      rbac_where_def lower_def)

subsection \<open>C5: access outside working hours\<close>

lemma query_insider_seeded:
  "query_insider other seeded_db =
     [(''Grace Moore'', ''IT'', ''2024-03-25 07:32:15''),
      (''Olivia Garcia'', ''Operations'', ''2024-03-25 21:24:46''),
      (''Liam Harris'', ''IT'', ''2024-03-25 22:23:39'')]"
  by (simp add: query_insider_def seeded_db_def seeded_accesses_def seeded_employees_def
      access_def emp_def full_name_def insider_where_def date_defs sql_or_def sql_lt_def
      sql_ge_def sql_where_def)

lemma hours_as_text_no_other_form: "hours_as_text no_other_form"
  by (simp add: hours_as_text_def no_other_form_def)

text \<open>
  C5. Given that \<^verbatim>\<open>strftime('%H', t)\<close> is NULL or two digits for a text that is not a
  plain date and time, the query returns exactly the joined access events whose timestamp
  has an hour and that hour is less than 8 or at least 20. An event whose plain timestamp
  has hour 08 is not in the result, nor one of hour 19 (19:59); an event of hour 20 is.
\<close>

theorem query_insider_off_hours:
  "hours_as_text other \<Longrightarrow>
     set (query_insider other db) =
       {(full_name e, Department e, fa_timestamp f) | f e.
          f \<in> set (File_Access db) \<and> e \<in> set (Employee_Data db) \<and>
          fa_employee_id f = employee_id e \<and>
          (\<exists>h. timestamp_hour other (fa_timestamp f) = Some h \<and> (h < 8 \<or> 20 \<le> h))} \<and>
     (plain_datetime ts \<and> written_hour ts = 8 \<longrightarrow> \<not> sql_where (insider_where other ts)) \<and>
     (plain_datetime ts \<and> written_hour ts = 19 \<longrightarrow> \<not> sql_where (insider_where other ts)) \<and>
     (plain_datetime ts \<and> written_hour ts = 20 \<longrightarrow> sql_where (insider_where other ts))"
proof -
  assume h: "hours_as_text other"
  have "set (query_insider other db) =
       {(full_name e, Department e, fa_timestamp f) | f e.
          f \<in> set (File_Access db) \<and> e \<in> set (Employee_Data db) \<and>
          fa_employee_id f = employee_id e \<and>
          (\<exists>h. timestamp_hour other (fa_timestamp f) = Some h \<and> (h < 8 \<or> 20 \<le> h))}"
    unfolding query_insider_def set_join2 insider_where_iff [OF h] ..
  then show ?thesis by (simp add: boundary_hours)
qed

theorem query_insider_off_hours_witness:
  "hours_as_text no_other_form \<and>
   (''Olivia Garcia'', ''Operations'', ''2024-03-25 21:24:46'') \<in>
     set (query_insider no_other_form seeded_db) \<and>
   plain_datetime ''2024-03-25 08:00:00'' \<and> written_hour ''2024-03-25 08:00:00'' = 8 \<and>
   \<not> sql_where (insider_where no_other_form ''2024-03-25 08:00:00'') \<and>
   plain_datetime ''2024-03-25 19:59:00'' \<and> written_hour ''2024-03-25 19:59:00'' = 19 \<and>
   \<not> sql_where (insider_where no_other_form ''2024-03-25 19:59:00'') \<and>
   plain_datetime ''2024-03-25 20:00:00'' \<and> written_hour ''2024-03-25 20:00:00'' = 20 \<and>
   sql_where (insider_where no_other_form ''2024-03-25 20:00:00'')"
proof -
  note h = hours_as_text_no_other_form
  have 8: "plain_datetime ''2024-03-25 08:00:00'' \<and> written_hour ''2024-03-25 08:00:00'' = 8"
    by (simp add: plain_defs)
  have 19: "plain_datetime ''2024-03-25 19:59:00'' \<and> written_hour ''2024-03-25 19:59:00'' = 19"
    by (simp add: plain_defs)
  have 20: "plain_datetime ''2024-03-25 20:00:00'' \<and> written_hour ''2024-03-25 20:00:00'' = 20"
    by (simp add: plain_defs)
  let ?e = "emp 15 ''Olivia'' ''Garcia'' ''Operations'' ''olivia.garcia@bank.com'' 5"
  let ?f = "access 3 15 6 ''2024-03-25 21:24:46'' 3"
  have "plain_datetime ''2024-03-25 21:24:46'' \<and> written_hour ''2024-03-25 21:24:46'' = 21"
    by (simp add: plain_defs)
  then have "timestamp_hour no_other_form (fa_timestamp ?f) = Some 21"
    by (simp add: timestamp_hour_def access_def)
  then have "?f \<in> set (File_Access seeded_db) \<and> ?e \<in> set (Employee_Data seeded_db) \<and>
      fa_employee_id ?f = employee_id ?e \<and>
      (\<exists>h. timestamp_hour no_other_form (fa_timestamp ?f) = Some h \<and> (h < 8 \<or> 20 \<le> h))"
    by (simp add: seeded_db_def seeded_accesses_def seeded_employees_def access_def emp_def)
  moreover have "(''Olivia Garcia'', ''Operations'', ''2024-03-25 21:24:46'') =
      (full_name ?e, Department ?e, fa_timestamp ?f)"
    by (simp add: full_name_def emp_def access_def)
  ultimately have m: "(''Olivia Garcia'', ''Operations'', ''2024-03-25 21:24:46'') \<in>
     set (query_insider no_other_form seeded_db)"
    using query_insider_off_hours [OF h, of seeded_db] by blast
  from h m 8 19 20
    query_insider_off_hours [OF h, of seeded_db "''2024-03-25 08:00:00''"]
    query_insider_off_hours [OF h, of seeded_db "''2024-03-25 19:59:00''"]
    query_insider_off_hours [OF h, of seeded_db "''2024-03-25 20:00:00''"]
  show ?thesis by blast
qed

subsection \<open>C9: endpoint vulnerability\<close>

lemma query_vuln_seeded:
  "query_vuln seeded_db =
     [(''David Wilson'', Some ''Windows'', Some ''7'', Some ''Expired''),
      (''Frank Miller'', Some ''Windows'', Some ''10'', Some ''Disabled''),
      (''Isaac Anderson'', Some ''Windows'', Some ''XP'', Some ''Expired'')]"
  by (simp add: query_vuln_def seeded_db_def endpoint_data_def seeded_employees_def
      device_def emp_def full_name_def vuln_where_def sql_or_def sql_ne_def sql_in_def
      sql_where_def)

text \<open>
  C9, as amended. The query returns exactly the endpoint rows, joined to their employee,
  whose antivirus status is recorded and is not Active, or whose OS version is XP or 7: a row
  whose status is NULL is returned for its version only. Status Active with version 11 is not
  flagged, status Disabled with version 11 is, and status Active with version XP is.
\<close>

theorem query_vuln_recorded_status:
  "set (query_vuln db) =
     {(full_name e, os_name s, os_version s, antivirus_status s) | s e.
        s \<in> set (Endpoint_Security db) \<and> e \<in> set (Employee_Data db) \<and>
        es_employee_id s = Some (employee_id e) \<and>
        ((\<exists>v. antivirus_status s = Some v \<and> v \<noteq> ''Active'') \<or>
         os_version s = Some ''XP'' \<or> os_version s = Some ''7'')} \<and>
   \<not> sql_where (vuln_where (Some ''Active'') (Some ''11'')) \<and>
   sql_where (vuln_where (Some ''Disabled'') (Some ''11'')) \<and>
   sql_where (vuln_where (Some ''Active'') (Some ''XP''))"
proof -
  have "set (query_vuln db) =
     {(full_name e, os_name s, os_version s, antivirus_status s) | s e.
        s \<in> set (Endpoint_Security db) \<and> e \<in> set (Employee_Data db) \<and>
        es_employee_id s = Some (employee_id e) \<and>
        ((\<exists>v. antivirus_status s = Some v \<and> v \<noteq> ''Active'') \<or>
         os_version s = Some ''XP'' \<or> os_version s = Some ''7'')}"
    unfolding query_vuln_def set_join2 vuln_where_iff ..
  then show ?thesis by (simp add: vuln_where_iff)
qed

theorem query_vuln_recorded_status_witness:
  "(''Frank Miller'', Some ''Windows'', Some ''10'', Some ''Disabled'') \<in> set (query_vuln seeded_db)"
proof -
  let ?e = "emp 6 ''Frank'' ''Miller'' ''Finance'' ''frank.miller@bank.com'' 1"
  let ?s = "device 6 6 ''Windows'' ''10'' ''2023-11-01'' ''Disabled''"
  have "?s \<in> set (Endpoint_Security seeded_db) \<and> ?e \<in> set (Employee_Data seeded_db) \<and>
      es_employee_id ?s = Some (employee_id ?e) \<and>
      ((\<exists>v. antivirus_status ?s = Some v \<and> v \<noteq> ''Active'') \<or>
       os_version ?s = Some ''XP'' \<or> os_version ?s = Some ''7'')"
    by (simp add: seeded_db_def endpoint_data_def seeded_employees_def device_def emp_def)
  moreover have "(''Frank Miller'', Some ''Windows'', Some ''10'', Some ''Disabled'') =
      (full_name ?e, os_name ?s, os_version ?s, antivirus_status ?s)"
    by (simp add: full_name_def emp_def device_def)
  ultimately show ?thesis
    using query_vuln_recorded_status [of seeded_db] by blast
qed

text \<open>
  C9 as it stands flags every row whose antivirus status is not Active. The status of
  an endpoint with version 11 whose status was never recorded is not Active, and the query
  does not return it.
\<close>

theorem query_vuln_counterexample:
  "query_vuln unrecorded_db = [] \<and>
   Endpoint_Security unrecorded_db = [unrecorded_device] \<and>
   es_employee_id unrecorded_device = Some (employee_id (hd (Employee_Data unrecorded_db))) \<and>
   antivirus_status unrecorded_device \<noteq> Some ''Active''"
  by (simp add: query_vuln_def unrecorded_db_def unrecorded_device_def emp_def vuln_where_def
      sql_or_def sql_ne_def sql_in_def sql_where_def)

subsection \<open>C7: repeated failed logins\<close>

text \<open>
  C7. The pipeline returns exactly the subjects with two or more documents of status Failed,
  each once and with its number of such documents, in descending order of that number; a
  subject with exactly one such document is not in the result.
\<close>

theorem pipeline_repeated_failures:
  "set (pipeline docs) = {(s, n). n = failed_count docs s \<and> 2 \<le> n} \<and>
   distinct (map fst (pipeline docs)) \<and>
   sorted_wrt (\<lambda>a b. snd b \<le> snd a) (pipeline docs) \<and>
   (failed_count docs s = 1 \<longrightarrow> s \<notin> fst ` set (pipeline docs))"
proof -
  have 1: "set (pipeline docs) = {(s, n). n = failed_count docs s \<and> 2 \<le> n}"
    by (simp add: pipeline_def sort_descending_def set_group_sum1)
  have 2: "distinct (map fst (pipeline docs))"
    by (simp add: pipeline_def sort_descending_def distinct_map_sort_key distinct_group_sum1)
  have 3: "sorted_wrt (\<lambda>a b. snd b \<le> snd a) (pipeline docs)"
    by (simp add: pipeline_def sorted_sort_descending)
  have 4: "failed_count docs s = 1 \<longrightarrow> s \<notin> fst ` set (pipeline docs)"
    unfolding 1 by auto
  from 1 2 3 4 show ?thesis by blast
qed

theorem pipeline_repeated_failures_witness:
  "failed_count failures ''EMP002'' = 1 \<and> ''EMP002'' \<notin> fst ` set (pipeline failures) \<and>
   set (pipeline failures) = {(s, n). n = failed_count failures s \<and> 2 \<le> n}"
proof -
  note t = pipeline_repeated_failures [of failures "''EMP002''"]
  have one: "failed_count failures ''EMP002'' = 1"
    by (simp add: failed_count_def failures_def login_def)
  from t have "set (pipeline failures) = {(s, n). n = failed_count failures s \<and> 2 \<le> n}"
    by (rule conjunct1)
  moreover from t one have "''EMP002'' \<notin> fst ` set (pipeline failures)"
    by (elim conjE impE)
  ultimately show ?thesis using one by (intro conjI)
qed

lemma pipeline_failures: "pipeline failures = [(''EMP007'', 3), (''VEND03'', 2)]"
  by (simp add: pipeline_def sort_descending_def match_gte_def group_sum1_def match_status_def
      failures_def login_def)

subsection \<open>C8: high-risk phishing clicks\<close>

text \<open>
  C8. The count is the number of phishing documents whose anomaly score is strictly greater
  than 0.8 and whose link was clicked. A document whose score is 0.8 adds nothing to the
  count; one whose score is 0.81 and whose link was clicked adds one.
\<close>

theorem victim_count_strict:
  "victim_count docs =
     card {i. i < length docs \<and> double_0_8 < ANOMALY_SCORE (docs ! i) \<and> LINK_CLICKED (docs ! i)} \<and>
   (ANOMALY_SCORE d = double_0_8 \<longrightarrow> victim_count (xs @ d # ys) = victim_count (xs @ ys)) \<and>
   (ANOMALY_SCORE d = double_0_81 \<and> LINK_CLICKED d \<longrightarrow>
      victim_count (xs @ d # ys) = Suc (victim_count (xs @ ys)))"
proof -
  have "double_0_8 < double_0_81"
    by (simp add: double_0_8_def double_0_81_def)
  then show ?thesis
    by (simp add: victim_count_append query_phish_def)
       (simp add: victim_count_def count_documents_def query_phish_def length_filter_conv_card)
qed

theorem victim_count_strict_witness:
  "ANOMALY_SCORE (phish double_0_8 True) = double_0_8 \<and>
   victim_count ([] @ phish double_0_8 True # []) = victim_count ([] @ []) \<and>
   ANOMALY_SCORE (phish double_0_81 True) = double_0_81 \<and> LINK_CLICKED (phish double_0_81 True) \<and>
   victim_count ([] @ phish double_0_81 True # []) = Suc (victim_count ([] @ []))"
proof -
  have 1: "ANOMALY_SCORE (phish double_0_8 True) = double_0_8"
    by (simp add: phish_def)
  have 2: "ANOMALY_SCORE (phish double_0_81 True) = double_0_81 \<and> LINK_CLICKED (phish double_0_81 True)"
    by (simp add: phish_def)
  from 1 2
    victim_count_strict [of "[]" "phish double_0_8 True" "[]" "[]"]
    victim_count_strict [of "[]" "phish double_0_81 True" "[]" "[]"]
  show ?thesis by blast
qed

subsection \<open>C6: impossible travel as a difference of neighbours\<close>

lemma length_adjacent_pairs: "length (adjacent_pairs xs) = length xs - 1"
  by (simp add: adjacent_pairs_zip)

lemma impossible_returns:
  "has_column_LOCATION logs \<Longrightarrow> \<exists>rs. impossible logs = Inr rs"
  by (simp add: impossible_def)

lemmas travel_defs =
  no_location_def from_uk_def from_japan_def login_def location_def country_def cell_def
  get_Country_def changed_def notnull_def isnull_def

text \<open>
  C6, as amended. When the frame has a LOCATION column, the rows flagged for a subject are
  exactly the later events of the adjacent pairs of the subject's events, in ascending order
  of timestamp, in which the earlier event has a country and the later event has another
  country or none. The first event of a subject is the later event of no pair, so at most one
  row less than the subject has events is flagged. Two events of a subject from two countries
  are flagged whatever time lies between them.
\<close>

theorem impossible_adjacent_changes:
  "has_column_LOCATION logs \<Longrightarrow>
     (\<exists>rs. impossible logs = Inr rs \<and>
        filter (\<lambda>r. col_ID r = s) rs =
          map transition (filter changed (adjacent_pairs (events_of s logs)))) \<and>
     length (flagged s logs) \<le> length (events_of s logs) - 1 \<and>
     (0 \<le> gap \<and> c1 \<noteq> c2 \<longrightarrow>
        flagged s [login s t (Some (location x c1)) st,
                   login s (t + gap) (Some (location y c2)) st'] =
          [transition (login s t (Some (location x c1)) st,
                       login s (t + gap) (Some (location y c2)) st')])"
proof -
  assume col: "has_column_LOCATION logs"
  then obtain rs where rs: "impossible logs = Inr rs" using impossible_returns by blast
  have eq: "flagged s logs = map transition (filter changed (adjacent_pairs (events_of s logs)))"
    using col by (rule flagged_eq)
  have 1: "\<exists>rs. impossible logs = Inr rs \<and>
        filter (\<lambda>r. col_ID r = s) rs =
          map transition (filter changed (adjacent_pairs (events_of s logs)))"
    using rs eq by (simp add: flagged_def)
  have "length (flagged s logs) \<le> length (adjacent_pairs (events_of s logs))"
    unfolding eq by simp
  then have 2: "length (flagged s logs) \<le> length (events_of s logs) - 1"
    by (simp add: length_adjacent_pairs)
  have 3: "flagged s [login s t (Some (location x c1)) st,
                   login s (t + gap) (Some (location y c2)) st'] =
          [transition (login s t (Some (location x c1)) st,
                       login s (t + gap) (Some (location y c2)) st')]"
    if "0 \<le> gap" and "c1 \<noteq> c2"
  proof -
    let ?a = "login s t (Some (location x c1)) st"
    let ?b = "login s (t + gap) (Some (location y c2)) st'"
    have "has_column_LOCATION [?a, ?b]" by (simp add: has_column_LOCATION_def login_def)
    then have "flagged s [?a, ?b] =
        map transition (filter changed (adjacent_pairs (events_of s [?a, ?b])))"
      by (rule flagged_eq)
    moreover have "events_of s [?a, ?b] = [?a, ?b]"
      using that by (simp add: events_of_def login_def)
    moreover have "changed (?a, ?b)"
      using that by (simp add: changed_def country_def cell_def login_def notnull_def isnull_def)
    ultimately show ?thesis by simp
  qed
  from 1 2 3 show ?thesis by blast
qed

theorem impossible_adjacent_changes_witness:
  "has_column_LOCATION [no_location, from_uk, from_japan] \<and>
   flagged ''EMP001'' [no_location, from_uk, from_japan] = [transition (from_uk, from_japan)] \<and>
   length (flagged ''EMP001'' [no_location, from_uk, from_japan]) \<le>
     length (events_of ''EMP001'' [no_location, from_uk, from_japan]) - 1"
proof -
  let ?L = "[no_location, from_uk, from_japan]"
  have col: "has_column_LOCATION ?L"
    by (simp add: has_column_LOCATION_def travel_defs)
  note t = impossible_adjacent_changes [OF col, of "''EMP001''" 0 "''a''" "''b''"]
  have ev: "events_of ''EMP001'' ?L = ?L"
    by (simp add: events_of_def travel_defs)
  have ch: "filter changed (adjacent_pairs ?L) = [(from_uk, from_japan)]"
    by (simp add: travel_defs)
  from t obtain rs where rs: "impossible ?L = Inr rs"
    and f: "filter (\<lambda>r. col_ID r = ''EMP001'') rs =
      map transition (filter changed (adjacent_pairs (events_of ''EMP001'' ?L)))"
    by blast
  have "flagged ''EMP001'' ?L = filter (\<lambda>r. col_ID r = ''EMP001'') rs"
    using rs by (simp add: flagged_def)
  also have "\<dots> = [transition (from_uk, from_japan)]"
    unfolding f ev ch by simp
  finally have 1: "flagged ''EMP001'' ?L = [transition (from_uk, from_japan)]" .
  from t have 2: "length (flagged ''EMP001'' ?L) \<le> length (events_of ''EMP001'' ?L) - 1"
    by blast
  from col 1 2 show ?thesis by blast
qed

text \<open>
  C6 as it stands flags every adjacent pair of events of a subject whose countries
  differ. A document without a location followed by one from the UK is such a pair, by the
  comparison of the check itself, and no row is flagged.
\<close>

theorem impossible_counterexample:
  "events_of ''EMP001'' [no_location, from_uk] = [no_location, from_uk] \<and>
   ne (country from_uk) (country no_location) \<and>
   country from_uk \<noteq> country no_location \<and>
   impossible [no_location, from_uk] = Inr []"
  by (simp add: events_of_def impossible_def has_column_LOCATION_def DataFrame_def
      apply_Country_def sort_values_def groupby_shift_def jump_def ne_def travel_defs)

subsection \<open>C10: documents without a country\<close>

lemma country_absent: "LOCATION d = None \<Longrightarrow> country d = PyNone"
  by (simp add: country_def cell_def get_Country_def)

lemma country_not_dict: "LOCATION d = Some v \<Longrightarrow> \<forall>m. v \<noteq> PyDict m \<Longrightarrow> country d = PyNone"
  by (cases v) (simp_all add: country_def cell_def get_Country_def)

lemma country_no_key:
  "LOCATION d = Some (PyDict m) \<Longrightarrow> fmlookup m ''Country'' = None \<Longrightarrow> country d = PyNone"
  by (simp add: country_def cell_def get_Country_def)

lemma changed_to_none: "country c = PyNone \<Longrightarrow> changed (p, c) = notnull (country p)"
  by (auto simp: changed_def notnull_def isnull_def)

lemma changed_from_none: "country p = PyNone \<Longrightarrow> \<not> changed (p, c)"
  by (simp add: changed_def notnull_def isnull_def)

text \<open>
  C10. The claim holds of a collection in which some document has a LOCATION field, by the
  lemmas above and the theorem of C6. It fails by a slip of the code when no document has
  one: the frame then has no such column, and reading it raises before any country is
  extracted. Use case 6 prints the error instead of a result.
\<close>

theorem missing_column_raises:
  "impossible [no_location] = Inl (KeyError ''LOCATION'') \<and>
   travel [no_location] = Inl ([quote] @ ''LOCATION'' @ [quote]) \<and>
   report6 plain (travel [no_location]) =
     [[newline] @ ''[Use Case 6] Impossible Travel Detection'',
      ''Error: '' @ [quote] @ ''LOCATION'' @ [quote]]"
  by (simp add: impossible_def travel_def report6_def has_column_LOCATION_def no_location_def
      login_def str_error_def error_line_def)

subsection \<open>C3: empty results and errors\<close>

lemmas report_defs =
  report1_def report2_def report3_def report4_def report5_def report6_def report7_def
  report8_def error_line_def to_string_def empty_frame_text_def

lemma str_nat_0: "str_nat 0 = ''0''"
  by (simp add: str_nat.simps digits_def)

lemma last_messages:
  "last (report1 r (Inr [])) = ''>> No after-hours access detected.''"
  "last (report3 r (Inr [])) = ''>> No users exceeded failure threshold.''"
  "rows df = [] \<Longrightarrow> last (report5 r (Inr df)) = ''>> No large transfers detected.''"
  "last (report6 r (Inr None)) = ''>> No log data available.''"
  "last (report6 r (Inr (Some []))) = ''>> No impossible travel patterns found.''"
  "last (report7 r (Inr [])) = ''>> No RBAC violations detected.''"
  "last (report8 r (Inr [])) = ''>> All devices healthy.''"
  "rows df = [] \<Longrightarrow> last (report2 r (Inr df)) = empty_frame_text (columns df)"
  "last (report4 (Inr 0)) = ''>> Total Users Compromised: 0''"
  by (simp_all add: report_defs str_nat_0)

lemma empty_is_no_error:
  "report1 r (Inr []) \<noteq> report1 r (Inl e)"
  "rows df = [] \<Longrightarrow> report2 r (Inr df) \<noteq> report2 r (Inl e)"
  "report3 r (Inr []) \<noteq> report3 r (Inl e)"
  "report4 (Inr 0) \<noteq> report4 (Inl e)"
  "rows df = [] \<Longrightarrow> report5 r (Inr df) \<noteq> report5 r (Inl e)"
  "report6 r (Inr None) \<noteq> report6 r (Inl e)"
  "report6 r (Inr (Some [])) \<noteq> report6 r (Inl e)"
  "report7 r (Inr []) \<noteq> report7 r (Inl e)"
  "report8 r (Inr []) \<noteq> report8 r (Inl e)"
  by (simp_all add: report_defs)

lemma use_case_isolated:
  "j \<noteq> k \<Longrightarrow> use_case r (w\<lparr>w_raises := (w_raises w)(k := x)\<rparr>) j = use_case r w j"
  by (auto simp: use_case_def read_def split: option.splits)

lemma use_case_error:
  assumes "w_raises w k = Some e" and "1 \<le> k" and "k \<le> 8"
  shows "last (use_case r w k) = error_line e"
proof -
  from assms(2,3) consider "k = 1" | "k = 2" | "k = 3" | "k = 4" | "k = 5" | "k = 6" | "k = 7"
    | "k = 8" by linarith
  then show ?thesis
    using assms(1) by cases (simp_all add: use_case_def read_def report_defs)
qed

lemma analysis_connected:
  "w_connection w = None \<Longrightarrow>
     analysis r w =
       (banner w @
        [''[SYSTEM] Databases Connected Successfully.'' @ [newline],
         ''--- SECTION 1: BASELINE SECURITY MONITORING ---''] @
        use_case r w 1 @ use_case r w 2 @ use_case r w 3 @ use_case r w 4 @
        use_case r w 5 @ use_case r w 6 @ use_case r w 7 @ use_case r w 8 @
        [[newline] @ rule, ''   ANALYSIS COMPLETE'', rule],
        Finished)"
  by (simp add: analysis_def)

text \<open>
  C3, as amended. Six of the eight use cases (1, 3, 5, 6, 7 and 8) print a message of their
  own for a result without rows. Use case 2 prints its frame whether it has rows or not, so
  an empty result shows as what pandas writes for an empty frame, and use case 4 prints the
  count, 0 for no document. For each of the eight what is printed for an empty result
  differs from what is printed for an error. An error in a use case is printed by that use
  case, changes nothing in what the others print, and the run goes through all eight to its
  end.
\<close>

theorem reports_empty_and_error:
  "last (report1 r (Inr [])) = ''>> No after-hours access detected.'' \<and>
   last (report3 r (Inr [])) = ''>> No users exceeded failure threshold.'' \<and>
   (rows df = [] \<longrightarrow> last (report5 r (Inr df)) = ''>> No large transfers detected.'') \<and>
   last (report6 r (Inr None)) = ''>> No log data available.'' \<and>
   last (report6 r (Inr (Some []))) = ''>> No impossible travel patterns found.'' \<and>
   last (report7 r (Inr [])) = ''>> No RBAC violations detected.'' \<and>
   last (report8 r (Inr [])) = ''>> All devices healthy.'' \<and>
   (rows df = [] \<longrightarrow> last (report2 r (Inr df)) = empty_frame_text (columns df)) \<and>
   last (report4 (Inr 0)) = ''>> Total Users Compromised: 0'' \<and>
   report1 r (Inr []) \<noteq> report1 r (Inl e) \<and>
   (rows df = [] \<longrightarrow> report2 r (Inr df) \<noteq> report2 r (Inl e)) \<and>
   report3 r (Inr []) \<noteq> report3 r (Inl e) \<and>
   report4 (Inr 0) \<noteq> report4 (Inl e) \<and>
   (rows df = [] \<longrightarrow> report5 r (Inr df) \<noteq> report5 r (Inl e)) \<and>
   report6 r (Inr None) \<noteq> report6 r (Inl e) \<and>
   report6 r (Inr (Some [])) \<noteq> report6 r (Inl e) \<and>
   report7 r (Inr []) \<noteq> report7 r (Inl e) \<and>
   report8 r (Inr []) \<noteq> report8 r (Inl e) \<and>
   (w_raises w k = Some e \<and> 1 \<le> k \<and> k \<le> 8 \<longrightarrow> last (use_case r w k) = error_line e) \<and>
   (j \<noteq> k \<longrightarrow> use_case r (w\<lparr>w_raises := (w_raises w)(k := x)\<rparr>) j = use_case r w j) \<and>
   (w_connection w = None \<longrightarrow>
      analysis r w =
        (banner w @
         [''[SYSTEM] Databases Connected Successfully.'' @ [newline],
          ''--- SECTION 1: BASELINE SECURITY MONITORING ---''] @
         use_case r w 1 @ use_case r w 2 @ use_case r w 3 @ use_case r w 4 @
         use_case r w 5 @ use_case r w 6 @ use_case r w 7 @ use_case r w 8 @
         [[newline] @ rule, ''   ANALYSIS COMPLETE'', rule],
         Finished))"
  by (intro conjI impI)
    (simp_all add: last_messages empty_is_no_error use_case_error use_case_isolated
      analysis_connected)

theorem reports_empty_and_error_witness:
  "rows no_sla = [] \<and>
   last (report2 plain (Inr no_sla)) = empty_frame_text (columns no_sla) \<and>
   report2 plain (Inr no_sla) \<noteq> report2 plain (Inl ''connection closed'') \<and>
   last (report5 plain (Inr no_sla)) = ''>> No large transfers detected.'' \<and>
   report5 plain (Inr no_sla) \<noteq> report5 plain (Inl ''connection closed'') \<and>
   w_raises empty_world 3 = Some ''connection closed'' \<and>
   last (use_case plain empty_world 3) = error_line ''connection closed'' \<and>
   use_case plain (empty_world\<lparr>w_raises := (w_raises empty_world)(3 := None)\<rparr>) 4 =
     use_case plain empty_world 4 \<and>
   w_connection empty_world = None \<and>
   snd (analysis plain empty_world) = Finished"
proof -
  note t = reports_empty_and_error
    [of plain no_sla "''connection closed''" empty_world 3 4 None]
  have a: "rows no_sla = []" by (simp add: no_sla_def)
  have b: "w_raises empty_world 3 = Some ''connection closed'' \<and> (1 :: nat) \<le> 3 \<and> (3 :: nat) \<le> 8"
    by (simp add: empty_world_def)
  have c: "(4 :: nat) \<noteq> 3" by simp
  have d: "w_connection empty_world = None" by (simp add: empty_world_def)
  from t a have 1: "last (report2 plain (Inr no_sla)) = empty_frame_text (columns no_sla)"
    and 2: "report2 plain (Inr no_sla) \<noteq> report2 plain (Inl ''connection closed'')"
    and 3: "last (report5 plain (Inr no_sla)) = ''>> No large transfers detected.''"
    and 4: "report5 plain (Inr no_sla) \<noteq> report5 plain (Inl ''connection closed'')"
    by blast+
  from t b have 5: "last (use_case plain empty_world 3) = error_line ''connection closed''"
    by blast
  from t c have 6: "use_case plain (empty_world\<lparr>w_raises := (w_raises empty_world)(3 := None)\<rparr>) 4 =
     use_case plain empty_world 4" by blast
  from t d have "analysis plain empty_world =
      (banner empty_world @
         [''[SYSTEM] Databases Connected Successfully.'' @ [newline],
          ''--- SECTION 1: BASELINE SECURITY MONITORING ---''] @
         use_case plain empty_world 1 @ use_case plain empty_world 2 @
         use_case plain empty_world 3 @ use_case plain empty_world 4 @
         use_case plain empty_world 5 @ use_case plain empty_world 6 @
         use_case plain empty_world 7 @ use_case plain empty_world 8 @
         [[newline] @ rule, ''   ANALYSIS COMPLETE'', rule],
         Finished)" by blast
  then have 7: "snd (analysis plain empty_world) = Finished" by simp
  from a b d 1 2 3 4 5 6 7 show ?thesis by blast
qed

text \<open>
  C3 as it stands gives every use case a message of no findings. For an empty result
  use case 2 prints its heading and the rendering of the empty frame, and none of the
  messages that the script prints for a result without rows.
\<close>

theorem reports_counterexample:
  "rows no_sla = [] \<and>
   report2 plain (Inr no_sla) =
     [[newline] @ ''[Use Case 2] SLA Performance KPIs (Avg Response Time)'',
      ''Empty DataFrame'' @ [newline] @ ''Columns: [incident_type, Avg_Minutes]'' @ [newline] @
      ''Index: []''] \<and>
   \<not> list_ex (\<lambda>l. l \<in> set no_findings_messages) (report2 plain (Inr no_sla))"
  by (simp add: report2_def to_string_def empty_frame_text_def no_sla_def
      no_findings_messages_def newline_def)

subsection \<open>C4: failures of the connections\<close>

lemma setup_continues:
  assumes "s_sqlite_connect sw = None" and "s_mongo_block sw = Some (step, e)"
    and "s_schema sw = None" and "s_data sw = None"
  shows "take 5 (fst (setup_all_databases sw)) =
      [Initialization, SQL_connected, NoSQL_not_found e, Schema_created, Data_populated]"
  using assms by (simp add: setup_all_databases_def)

lemma setup_completes:
  assumes "s_sqlite_connect sw = None" and "s_mongo_block sw = Some (step, e)"
    and "step \<noteq> Drop_collections" and "s_schema sw = None" and "s_data sw = None"
  shows "setup_all_databases sw =
      ([Initialization, SQL_connected, NoSQL_not_found e, Schema_created, Data_populated,
        Setup_complete], Finished)"
  using assms by (simp add: setup_all_databases_def section_C_def mongoclient_bound_def)

lemma use_case_nonempty: "1 \<le> k \<Longrightarrow> k \<le> 8 \<Longrightarrow> use_case r w k \<noteq> []"
proof -
  assume "1 \<le> k" and "k \<le> 8"
  then consider "k = 1" | "k = 2" | "k = 3" | "k = 4" | "k = 5" | "k = 6" | "k = 7"
    | "k = 8" by linarith
  then show ?thesis
    by cases (simp_all add: use_case_def report1_def report2_def report3_def report4_def
        report5_def report6_def report7_def report8_def)
qed

lemma use_case_printed:
  assumes "w_connection w = None" and "1 \<le> k" and "k \<le> 8"
  shows "set (use_case r w k) \<subseteq> set (fst (analysis r w))"
proof -
  from assms(2,3) consider "k = 1" | "k = 2" | "k = 3" | "k = 4" | "k = 5" | "k = 6" | "k = 7"
    | "k = 8" by linarith
  then show ?thesis
    by cases (auto simp: analysis_connected [OF assms(1)])
qed

lemma error_printed:
  assumes "w_connection w = None" and "w_raises w k = Some m" and "1 \<le> k" and "k \<le> 8"
  shows "error_line m \<in> set (fst (analysis r w))"
proof -
  have "last (use_case r w k) \<in> set (use_case r w k)"
    using use_case_nonempty [OF assms(3,4)] by simp
  then have "error_line m \<in> set (use_case r w k)"
    using use_case_error [OF assms(2,3,4)] by simp
  then show ?thesis using use_case_printed [OF assms(1,3,4)] by blast
qed

lemma setup_tracebacks:
  "s_sqlite_connect sw = None \<Longrightarrow> s_schema sw = Some e \<Longrightarrow>
     snd (setup_all_databases sw) = Traceback e"
  "s_sqlite_connect sw = None \<Longrightarrow> s_schema sw = None \<Longrightarrow> s_data sw = Some e \<Longrightarrow>
     snd (setup_all_databases sw) = Traceback e"
  "s_sqlite_connect sw = None \<Longrightarrow> s_schema sw = None \<Longrightarrow> s_data sw = None \<Longrightarrow>
     mongoclient_bound (s_mongo_block sw) \<Longrightarrow> s_insert_logs sw = Some e \<Longrightarrow>
     snd (setup_all_databases sw) = Traceback e"
  "s_sqlite_connect sw = None \<Longrightarrow> s_schema sw = None \<Longrightarrow> s_data sw = None \<Longrightarrow>
     mongoclient_bound (s_mongo_block sw) \<Longrightarrow> s_insert_logs sw = None \<Longrightarrow>
     s_insert_phishing sw = Some e \<Longrightarrow> snd (setup_all_databases sw) = Traceback e"
  by (simp_all add: setup_all_databases_def section_C_def)

lemma setup_finishes:
  "s_sqlite_connect sw = None \<Longrightarrow> s_schema sw = None \<Longrightarrow> s_data sw = None \<Longrightarrow>
     s_insert_logs sw = None \<Longrightarrow> s_insert_phishing sw = None \<Longrightarrow>
     snd (setup_all_databases sw) = Finished \<and> last (fst (setup_all_databases sw)) = Setup_complete"
  by (simp add: setup_all_databases_def section_C_def)

text \<open>
  C4, as amended. In the analysis script an exception raised while the connections are
  opened is reported and the run ends at once, by \<^verbatim>\<open>exit()\<close>, whose status is 0. It is
  the only condition that ends an analysis run early: otherwise the run goes to its end, and
  the error of a use case is printed in the output of the run. In the seeding script a
  failure to open the row store is reported and the run ends at once with status 1. A
  failure in the block that opens the document store is reported as a warning and the run
  goes on: it creates the schema and populates the row store, and when the client was never
  bound it skips the logs and finishes. An exception of a later statement of the seeding
  script (the schema, the data, the insertion of the logs or of the phishing documents) is
  not caught and ends the run with a traceback; when none of them raises, the run finishes.
\<close>

theorem connection_failures:
  "(w_connection w = Some e \<longrightarrow>
      analysis r w = (banner w @ [''[CRITICAL] Connection failed: '' @ e], SystemExit None) \<and>
      exit_status (snd (analysis r w)) = 0) \<and>
   (w_connection w = None \<longrightarrow> snd (analysis r w) = Finished) \<and>
   (snd (analysis r w) = Finished \<longrightarrow> w_connection w = None) \<and>
   (w_connection w = None \<and> w_raises w k = Some m \<and> 1 \<le> k \<and> k \<le> 8 \<longrightarrow>
      last (use_case r w k) = error_line m \<and> error_line m \<in> set (fst (analysis r w))) \<and>
   (s_sqlite_connect sw = Some e \<longrightarrow>
      setup_all_databases sw = ([Initialization, SQL_connection_failed e], SystemExit (Some 1)) \<and>
      exit_status (snd (setup_all_databases sw)) = 1) \<and>
   (s_sqlite_connect sw = None \<and> s_mongo_block sw = Some (step, e) \<and> s_schema sw = None \<and>
    s_data sw = None \<longrightarrow>
      take 5 (fst (setup_all_databases sw)) =
        [Initialization, SQL_connected, NoSQL_not_found e, Schema_created, Data_populated]) \<and>
   (s_sqlite_connect sw = None \<and> s_mongo_block sw = Some (step, e) \<and> step \<noteq> Drop_collections \<and>
    s_schema sw = None \<and> s_data sw = None \<longrightarrow>
      setup_all_databases sw =
        ([Initialization, SQL_connected, NoSQL_not_found e, Schema_created, Data_populated,
          Setup_complete], Finished)) \<and>
   (s_sqlite_connect sw = None \<and> s_schema sw = Some e \<longrightarrow>
      snd (setup_all_databases sw) = Traceback e) \<and>
   (s_sqlite_connect sw = None \<and> s_schema sw = None \<and> s_data sw = Some e \<longrightarrow>
      snd (setup_all_databases sw) = Traceback e) \<and>
   (s_sqlite_connect sw = None \<and> s_schema sw = None \<and> s_data sw = None \<and>
    mongoclient_bound (s_mongo_block sw) \<and> s_insert_logs sw = Some e \<longrightarrow>
      snd (setup_all_databases sw) = Traceback e) \<and>
   (s_sqlite_connect sw = None \<and> s_schema sw = None \<and> s_data sw = None \<and>
    mongoclient_bound (s_mongo_block sw) \<and> s_insert_logs sw = None \<and>
    s_insert_phishing sw = Some e \<longrightarrow>
      snd (setup_all_databases sw) = Traceback e) \<and>
   (s_sqlite_connect sw = None \<and> s_schema sw = None \<and> s_data sw = None \<and>
    s_insert_logs sw = None \<and> s_insert_phishing sw = None \<longrightarrow>
      snd (setup_all_databases sw) = Finished \<and>
      last (fst (setup_all_databases sw)) = Setup_complete)"
proof -
  have 1: "w_connection w = Some e \<longrightarrow>
      analysis r w = (banner w @ [''[CRITICAL] Connection failed: '' @ e], SystemExit None) \<and>
      exit_status (snd (analysis r w)) = 0"
    by (simp add: analysis_def exit_status_def)
  have 2: "w_connection w = None \<longrightarrow> snd (analysis r w) = Finished"
    by (simp add: analysis_def)
  have 3: "snd (analysis r w) = Finished \<longrightarrow> w_connection w = None"
    by (cases "w_connection w") (simp_all add: analysis_def)
  have 4: "w_connection w = None \<and> w_raises w k = Some m \<and> 1 \<le> k \<and> k \<le> 8 \<longrightarrow>
      last (use_case r w k) = error_line m \<and> error_line m \<in> set (fst (analysis r w))"
    using use_case_error [of w k m r] error_printed [of w k m r] by blast
  have 5: "s_sqlite_connect sw = Some e \<longrightarrow>
      setup_all_databases sw = ([Initialization, SQL_connection_failed e], SystemExit (Some 1)) \<and>
      exit_status (snd (setup_all_databases sw)) = 1"
    by (simp add: setup_all_databases_def exit_status_def)
  have 6: "s_sqlite_connect sw = None \<and> s_mongo_block sw = Some (step, e) \<and> s_schema sw = None \<and>
    s_data sw = None \<longrightarrow>
      take 5 (fst (setup_all_databases sw)) =
        [Initialization, SQL_connected, NoSQL_not_found e, Schema_created, Data_populated]"
    using setup_continues [of sw step e] by blast
  have 7: "s_sqlite_connect sw = None \<and> s_mongo_block sw = Some (step, e) \<and>
    step \<noteq> Drop_collections \<and> s_schema sw = None \<and> s_data sw = None \<longrightarrow>
      setup_all_databases sw =
        ([Initialization, SQL_connected, NoSQL_not_found e, Schema_created, Data_populated,
          Setup_complete], Finished)"
    using setup_completes [of sw step e] by blast
  have 8: "s_sqlite_connect sw = None \<and> s_schema sw = Some e \<longrightarrow>
      snd (setup_all_databases sw) = Traceback e"
    using setup_tracebacks(1) [of sw e] by blast
  have 9: "s_sqlite_connect sw = None \<and> s_schema sw = None \<and> s_data sw = Some e \<longrightarrow>
      snd (setup_all_databases sw) = Traceback e"
    using setup_tracebacks(2) [of sw e] by blast
  have 10: "s_sqlite_connect sw = None \<and> s_schema sw = None \<and> s_data sw = None \<and>
    mongoclient_bound (s_mongo_block sw) \<and> s_insert_logs sw = Some e \<longrightarrow>
      snd (setup_all_databases sw) = Traceback e"
    using setup_tracebacks(3) [of sw e] by blast
  have 11: "s_sqlite_connect sw = None \<and> s_schema sw = None \<and> s_data sw = None \<and>
    mongoclient_bound (s_mongo_block sw) \<and> s_insert_logs sw = None \<and>
    s_insert_phishing sw = Some e \<longrightarrow>
      snd (setup_all_databases sw) = Traceback e"
    using setup_tracebacks(4) [of sw e] by blast
  have 12: "s_sqlite_connect sw = None \<and> s_schema sw = None \<and> s_data sw = None \<and>
    s_insert_logs sw = None \<and> s_insert_phishing sw = None \<longrightarrow>
      snd (setup_all_databases sw) = Finished \<and>
      last (fst (setup_all_databases sw)) = Setup_complete"
    using setup_finishes [of sw] by blast
  show ?thesis
    by (intro conjI) (rule 1, rule 2, rule 3, rule 4, rule 5, rule 6, rule 7, rule 8, rule 9,
        rule 10, rule 11, rule 12)
qed

theorem connection_failures_witness:
  "w_connection refused_world = Some ''unable to open database file'' \<and>
   analysis plain refused_world =
     (banner refused_world @ [''[CRITICAL] Connection failed: unable to open database file''],
      SystemExit None) \<and>
   exit_status (snd (analysis plain refused_world)) = 0 \<and>
   w_connection empty_world = None \<and>
   snd (analysis plain empty_world) = Finished \<and>
   w_raises empty_world 3 = Some ''connection closed'' \<and>
   error_line ''connection closed'' \<in> set (fst (analysis plain empty_world)) \<and>
   s_sqlite_connect sqlite_fails = Some ''unable to open database file'' \<and>
   setup_all_databases sqlite_fails =
     ([Initialization, SQL_connection_failed ''unable to open database file''],
      SystemExit (Some 1)) \<and>
   s_mongo_block pip_fails = Some (Pip_install, ''CalledProcessError'') \<and>
   setup_all_databases pip_fails =
     ([Initialization, SQL_connected, NoSQL_not_found ''CalledProcessError'', Schema_created,
       Data_populated, Setup_complete], Finished) \<and>
   s_schema schema_fails = Some ''database is locked'' \<and>
   snd (setup_all_databases schema_fails) = Traceback ''database is locked'' \<and>
   s_data data_fails = Some ''database is locked'' \<and>
   snd (setup_all_databases data_fails) = Traceback ''database is locked'' \<and>
   s_insert_logs mongo_down = Some ''ServerSelectionTimeoutError'' \<and>
   snd (setup_all_databases mongo_down) = Traceback ''ServerSelectionTimeoutError'' \<and>
   s_insert_phishing phishing_fails = Some ''AutoReconnect'' \<and>
   snd (setup_all_databases phishing_fails) = Traceback ''AutoReconnect'' \<and>
   snd (setup_all_databases all_well) = Finished"
proof -
  note t1 = connection_failures
    [of refused_world "''unable to open database file''" plain 3 "''connection closed''"
      sqlite_fails Pip_install]
  note t2 = connection_failures
    [of empty_world "''CalledProcessError''" plain 3 "''connection closed''"
      pip_fails Pip_install]
  note t3 = connection_failures
    [of empty_world "''database is locked''" plain 3 "''connection closed''" schema_fails]
  note t4 = connection_failures
    [of empty_world "''database is locked''" plain 3 "''connection closed''" data_fails]
  note t5 = connection_failures
    [of empty_world "''ServerSelectionTimeoutError''" plain 3 "''connection closed''"
      mongo_down]
  note t6 = connection_failures
    [of empty_world "''AutoReconnect''" plain 3 "''connection closed''" phishing_fails]
  note t7 = connection_failures
    [of empty_world "''AutoReconnect''" plain 3 "''connection closed''" all_well]
  have a: "w_connection refused_world = Some ''unable to open database file''"
    by (simp add: refused_world_def)
  have b: "s_sqlite_connect sqlite_fails = Some ''unable to open database file''"
    by (simp add: sqlite_fails_def)
  have c: "w_connection empty_world = None \<and>
      w_raises empty_world 3 = Some ''connection closed'' \<and> (1 :: nat) \<le> 3 \<and> (3 :: nat) \<le> 8"
    by (simp add: empty_world_def)
  have d: "s_sqlite_connect pip_fails = None \<and>
      s_mongo_block pip_fails = Some (Pip_install, ''CalledProcessError'') \<and>
      Pip_install \<noteq> Drop_collections \<and> s_schema pip_fails = None \<and> s_data pip_fails = None"
    by (simp add: pip_fails_def)
  have f: "s_sqlite_connect schema_fails = None \<and> s_schema schema_fails = Some ''database is locked''"
    by (simp add: schema_fails_def all_well_def)
  have g: "s_sqlite_connect data_fails = None \<and> s_schema data_fails = None \<and>
      s_data data_fails = Some ''database is locked''"
    by (simp add: data_fails_def all_well_def)
  have h: "s_sqlite_connect mongo_down = None \<and> s_schema mongo_down = None \<and>
      s_data mongo_down = None \<and> mongoclient_bound (s_mongo_block mongo_down) \<and>
      s_insert_logs mongo_down = Some ''ServerSelectionTimeoutError''"
    by (simp add: mongo_down_def mongoclient_bound_def)
  have i: "s_sqlite_connect phishing_fails = None \<and> s_schema phishing_fails = None \<and>
      s_data phishing_fails = None \<and> mongoclient_bound (s_mongo_block phishing_fails) \<and>
      s_insert_logs phishing_fails = None \<and> s_insert_phishing phishing_fails = Some ''AutoReconnect''"
    by (simp add: phishing_fails_def all_well_def mongoclient_bound_def)
  have j: "s_sqlite_connect all_well = None \<and> s_schema all_well = None \<and>
      s_data all_well = None \<and> s_insert_logs all_well = None \<and> s_insert_phishing all_well = None"
    by (simp add: all_well_def)
  have c0: "w_connection empty_world = None" using c by (rule conjunct1)
  note k1 = t1 [THEN conjunct1, THEN mp, OF a]
  note k2 = t2 [THEN conjunct2, THEN conjunct1, THEN mp, OF c0]
  note k4 = t2 [THEN conjunct2, THEN conjunct2, THEN conjunct2, THEN conjunct1, THEN mp, OF c]
  note k5 = t1 [THEN conjunct2, THEN conjunct2, THEN conjunct2, THEN conjunct2, THEN conjunct1, THEN mp, OF b]
  note k7 = t2 [THEN conjunct2, THEN conjunct2, THEN conjunct2, THEN conjunct2, THEN conjunct2, THEN conjunct2, THEN conjunct1, THEN mp, OF d]
  note k8 = t3 [THEN conjunct2, THEN conjunct2, THEN conjunct2, THEN conjunct2, THEN conjunct2, THEN conjunct2, THEN conjunct2, THEN conjunct1, THEN mp, OF f]
  note k9 = t4 [THEN conjunct2, THEN conjunct2, THEN conjunct2, THEN conjunct2, THEN conjunct2, THEN conjunct2, THEN conjunct2, THEN conjunct2, THEN conjunct1, THEN mp, OF g]
  note k10 = t5 [THEN conjunct2, THEN conjunct2, THEN conjunct2, THEN conjunct2, THEN conjunct2, THEN conjunct2, THEN conjunct2, THEN conjunct2, THEN conjunct2, THEN conjunct1, THEN mp, OF h]
  note k11 = t6 [THEN conjunct2, THEN conjunct2, THEN conjunct2, THEN conjunct2, THEN conjunct2, THEN conjunct2, THEN conjunct2, THEN conjunct2, THEN conjunct2, THEN conjunct2, THEN conjunct1, THEN mp, OF i]
  note k12 = t7 [THEN conjunct2, THEN conjunct2, THEN conjunct2, THEN conjunct2, THEN conjunct2, THEN conjunct2, THEN conjunct2, THEN conjunct2, THEN conjunct2, THEN conjunct2, THEN conjunct2, THEN mp, OF j]
  from k1 have "analysis plain refused_world =
     (banner refused_world @ [''[CRITICAL] Connection failed: '' @ ''unable to open database file''],
      SystemExit None)"
    by (rule conjunct1)
  then have one: "analysis plain refused_world =
     (banner refused_world @ [''[CRITICAL] Connection failed: unable to open database file''],
      SystemExit None)"
    by simp
  from k1 have 2: "exit_status (snd (analysis plain refused_world)) = 0"
    by (rule conjunct2)
  from k5 have 3: "setup_all_databases sqlite_fails =
     ([Initialization, SQL_connection_failed ''unable to open database file''],
      SystemExit (Some 1))"
    by (rule conjunct1)
  note 4 = k2
  from k4 have 5: "error_line ''connection closed'' \<in> set (fst (analysis plain empty_world))"
    by (rule conjunct2)
  note 6 = k7
  note 7 = k8
  note 8 = k9
  note 9 = k10
  note 10 = k11
  from k12 have 11: "snd (setup_all_databases all_well) = Finished"
    by (rule conjunct1)
  from a b c d f g h i one 2 3 4 5 6 7 8 9 10 11 show ?thesis by (intro conjI) (elim conjE, assumption)+
qed

text \<open>
  C4 as it stands ends the run at once when either store cannot be opened. When the
  document store does not answer, the seeding script prints its warning, goes on to create the
  schema and to populate the row store, and ends only where it inserts the logs, with an
  exception that nothing catches.
\<close>

theorem connection_failures_counterexample:
  "s_mongo_block mongo_down = Some (Drop_collections, ''ServerSelectionTimeoutError'') \<and>
   setup_all_databases mongo_down =
     ([Initialization, SQL_connected, NoSQL_not_found ''ServerSelectionTimeoutError'',
       Schema_created, Data_populated, Generating_logs],
      Traceback ''ServerSelectionTimeoutError'') \<and>
   setup_all_databases pip_fails =
     ([Initialization, SQL_connected, NoSQL_not_found ''CalledProcessError'', Schema_created,
       Data_populated, Setup_complete], Finished)"
  by (simp add: setup_all_databases_def section_C_def mongoclient_bound_def mongo_down_def
      pip_fails_def)

end
